theory Spec2Isabelle
  imports Main
begin

section \<open>Order ingestion (the \<open>save\<close> function of the OpenDao order processor)\<close>

subsection \<open>Data\<close>

text \<open>
  \<open>Sdk.OpenDao.Types.TradeDirection\<close> and the fields of \<open>Sdk.OpenDao.Types.BaseOrder\<close>
  that \<open>save\<close> reads. Token amounts are the \<open>uint256\<close> fields of the signed order
  struct, held as decimal strings and read through \<open>bn(...)\<close> (an unbounded integer):
  they are natural numbers here, with no wrap-around. Addresses are strings; \<open>toBuffer\<close>
  is the identity on them.
\<close>

datatype TradeDirection = SELL | BUY

record Fee =
  recipient :: string
  amount :: nat
  feeData :: string

record BaseOrder =
  kind :: "string option"
  direction :: TradeDirection
  maker :: string
  taker :: string
  expiry :: nat
  nonce :: string
  erc20Token :: string
  erc20TokenAmount :: nat
  fees :: "Fee list"
  nft :: string
  nftId :: string
  nftAmount :: "nat option"

record OrderMetadata =
  schemaHash :: "string option"
  schema :: "string option"
  source :: "string option"

record OrderInfo =
  orderParams :: BaseOrder
  metadata :: OrderMetadata

record SaveResult =
  id_res :: string
  status :: string

record FeeBreakdown =
  kind_fb :: string
  recipient_fb :: string
  bps :: nat

text \<open>
  \<open>DbOrder\<close>, a row of the \<open>orders\<close> table, with the columns \<open>save\<close> writes.
  \<open>valid_between\<close> is the range from time 0 to the expiry, \<open>expiration\<close> the expiry; the
  column \<open>dynamic\<close> is always null and is left out.
\<close>

record DbOrder =
  id_col :: string
  kind_col :: string
  side :: string
  fillability_status :: string
  approval_status :: string
  token_set_id :: string
  token_set_schema_hash :: string
  maker_col :: string
  taker_col :: string
  price :: nat
  value_col :: nat
  quantity_remaining :: "nat option"
  valid_between :: "nat \<times> nat"
  nonce_col :: string
  source_id :: "string option"
  contract :: string
  fee_bps :: nat
  fee_breakdown :: "FeeBreakdown list"
  raw_data :: BaseOrder
  expiration :: nat

record TokenSet =
  id_ts :: string
  schemaHash_ts :: string
  contract_ts :: string
  tokenId_ts :: string

record ArweaveEntry =
  order_ar :: BaseOrder
  schemaHash_ar :: string
  source_ar :: "string option"

record QueueEvent =
  context_ev :: string
  id_ev :: string
  trigger_kind :: string

text \<open>
  What \<open>save\<close> imports and calls, as parameters: the SDK's order class (constructor,
  \<open>hash\<close>, \<open>checkValidity\<close>, \<open>checkSignature\<close>), the contract-kind lookup, the clock,
  the SDK's address tables at the configured chain, the off-chain fillability check, the
  schema hash and the token-set registry. A call that can throw returns \<open>None\<close> when it
  does; \<open>checkValidity\<close> and \<open>checkSignature\<close> are \<open>True\<close> when they return normally;
  \<open>offChainCheck\<close> is \<open>None\<close> when it resolves and \<open>Some m\<close> when it throws an error with
  message \<open>m\<close>. The nonce queries read a column \<open>order_kind\<close> of the \<open>orders\<close> table,
  which the insert of \<open>save\<close> does not write (it writes \<open>kind\<close>); the schema of the
  table is not part of the sources, so what that column holds for a row is a parameter
  too (\<open>None\<close> for null).
\<close>

record Env =
  Order_new :: "BaseOrder \<Rightarrow> BaseOrder option"
  Order_hash :: "BaseOrder \<Rightarrow> string option"
  getContractKind :: "string \<Rightarrow> string option"
  currentTime :: nat
  Weth :: "string option"
  Eth :: "string option"
  Exchange :: "string option"
  checkValidity :: "BaseOrder \<Rightarrow> bool"
  checkSignature :: "BaseOrder \<Rightarrow> bool"
  offChainCheck :: "BaseOrder \<Rightarrow> string option"
  generateSchemaHash :: "string option \<Rightarrow> string"
  singleToken_save :: "TokenSet \<Rightarrow> string list option"
  order_kind :: "DbOrder \<Rightarrow> string option"

subsection \<open>The checks of \<open>handleOrder\<close>\<close>

text \<open>\<open>SELECT 1 FROM orders WHERE orders.id = $/id/\<close>\<close>

definition orderExists :: "DbOrder list \<Rightarrow> string \<Rightarrow> bool" where
  "orderExists db i = (\<exists>r \<in> set db. id_col r = i)"

text \<open>
  \<open>idb.oneOrNone\<close> on the rows that a query selects: it resolves with null when there
  is none (\<open>Some False\<close>: the result is falsy), with the row when there is one
  (\<open>Some True\<close>), and rejects when there are more (\<open>None\<close>). The query on \<open>orders.id\<close>
  above selects on the primary key, hence at most one row.
\<close>

definition oneOrNone :: "'a list \<Rightarrow> bool option" where
  "oneOrNone rows = (case rows of [] \<Rightarrow> Some False | [r] \<Rightarrow> Some True | _ \<Rightarrow> None)"

text \<open>
  The two nonce queries, neither with a limit: for a contract of kind \<open>erc1155\<close> on
  \<open>order_kind\<close>, maker and nonce, for any other kind on \<open>order_kind\<close>, maker, nonce,
  contract and the \<open>price\<close> column compared with the order's \<open>erc20TokenAmount\<close>.
\<close>

definition nonceExists :: "Env \<Rightarrow> DbOrder list \<Rightarrow> string \<Rightarrow> BaseOrder \<Rightarrow> bool option" where
  "nonceExists env db k p =
     (if k = ''erc1155''
      then oneOrNone
             (filter (\<lambda>r. order_kind env r = Some ''opendao-erc1155''
                          \<and> maker_col r = maker p \<and> nonce_col r = nonce p) db)
      else oneOrNone
             (filter (\<lambda>r. order_kind env r = Some ''opendao-erc721''
                          \<and> maker_col r = maker p \<and> nonce_col r = nonce p
                          \<and> contract r = nft p \<and> price r = erc20TokenAmount p) db))"

text \<open>
  The catch block around \<open>offChainCheck\<close>: the pair (fillability status, approval status),
  or \<open>None\<close> where the handler returns \<open>not-fillable\<close>.
\<close>

definition fillability :: "string option \<Rightarrow> (string \<times> string) option" where
  "fillability err =
     (case err of
        None \<Rightarrow> Some (''fillable'', ''approved'')
      | Some m \<Rightarrow>
          if m = ''no-balance-no-approval'' then Some (''no-balance'', ''no-approval'')
          else if m = ''no-approval'' then Some (''fillable'', ''no-approval'')
          else if m = ''no-balance'' then Some (''no-balance'', ''approved'')
          else None)"

text \<open>
  The switch on \<open>order.params.kind\<close> that resolves the token set: \<open>Inr\<close> the value of
  \<open>tokenSetId\<close> after the switch (\<open>None\<close> for undefined), \<open>Inl ()\<close> when the registry
  throws or returns an empty array (the destructuring of its first element then throws).
\<close>

definition resolveTokenSet :: "Env \<Rightarrow> BaseOrder \<Rightarrow> string \<Rightarrow> unit + string option" where
  "resolveTokenSet env p sh =
     (if kind p = Some ''erc721-single-token'' \<or> kind p = Some ''erc1155-single-token''
      then (case singleToken_save env
                   \<lparr>id_ts = ''token:'' @ nft p @ '':'' @ nftId p, schemaHash_ts = sh,
                    contract_ts = nft p, tokenId_ts = nftId p\<rparr> of
              None \<Rightarrow> Inl ()
            | Some [] \<Rightarrow> Inl ()
            | Some (t # _) \<Rightarrow> Inr (Some t))
      else Inr None)"

text \<open>
  Modelled from the spec: \<open>order.getFeeAmount()\<close> of the SDK's order class, which is not
  part of the sources; the specification gives it as the sum of the declared fee amounts.
\<close>

definition getFeeAmount :: "BaseOrder \<Rightarrow> nat" where
  "getFeeAmount p = sum_list (map amount (fees p))"

text \<open>\<open>order.params.kind?.startsWith("erc1155")\<close>\<close>

definition kindStartsWithErc1155 :: "BaseOrder \<Rightarrow> bool" where
  "kindStartsWithErc1155 p =
     (case kind p of None \<Rightarrow> False | Some k \<Rightarrow> take 7 k = ''erc1155'')"

text \<open>
  Division of unbounded integers as \<open>BigNumber.div\<close> does it: it throws on a zero
  divisor, and on an undefined one (\<open>nftAmount!\<close> only silences the type checker).
\<close>

definition bn_div :: "nat \<Rightarrow> nat option \<Rightarrow> nat option" where
  "bn_div a b = (case b of None \<Rightarrow> None | Some d \<Rightarrow> if d = 0 then None else Some (a div d))"

text \<open>\<open>BigNumber.toNumber\<close> throws on a value of more than 53 bits.\<close>

definition toNumber :: "nat \<Rightarrow> nat option" where
  "toNumber n = (if n < 2 ^ 53 then Some n else None)"

text \<open>
  Price and value of one item: \<open>price = erc20TokenAmount + feeAmount\<close>, \<open>value = price\<close>,
  less the fee on the buy side, both divided by \<open>nftAmount\<close> when the order kind starts
  with \<open>erc1155\<close>. \<open>None\<close> when a division throws.
\<close>

definition priceAndValue :: "BaseOrder \<Rightarrow> (nat \<times> nat) option" where
  "priceAndValue p =
     (let feeAmount = getFeeAmount p;
          side = (if direction p = BUY then ''buy'' else ''sell'');
          price0 = erc20TokenAmount p + feeAmount;
          value0 = (if side = ''buy'' then price0 - feeAmount else price0)
      in if kindStartsWithErc1155 p
         then (case bn_div price0 (nftAmount p) of
                 None \<Rightarrow> None
               | Some price1 \<Rightarrow>
                   (case bn_div value0 (nftAmount p) of
                      None \<Rightarrow> None
                    | Some value1 \<Rightarrow> Some (price1, value1)))
         else Some (price0, value0))"

text \<open>The fee breakdown: every declared fee as basis points of the price.\<close>

fun feeBreakdownOf :: "nat \<Rightarrow> Fee list \<Rightarrow> FeeBreakdown list option" where
  "feeBreakdownOf pr [] = Some []"
| "feeBreakdownOf pr (f # fs) =
     (case bn_div (amount f * 10000) (Some pr) of
        None \<Rightarrow> None
      | Some b \<Rightarrow>
          (case toNumber b of
             None \<Rightarrow> None
           | Some n \<Rightarrow>
               (case feeBreakdownOf pr fs of
                  None \<Rightarrow> None
                | Some rest \<Rightarrow>
                    Some (\<lparr>kind_fb = ''royalty'', recipient_fb = recipient f, bps = n\<rparr> # rest))))"

subsection \<open>\<open>handleOrder\<close>\<close>

text \<open>
  What one run of \<open>handleOrder\<close> does to the three arrays of \<open>save\<close>: nothing when
  an exception reaches the catch block (which only logs), one entry of \<open>results\<close> at
  each early return, and at the end one row of \<open>orderValues\<close>, one \<open>success\<close> entry of
  \<open>results\<close> and the entry that goes to \<open>arweaveData\<close> when relaying is on.
\<close>

datatype Handled =
    Thrown
  | Returned SaveResult
  | Pushed DbOrder SaveResult ArweaveEntry

definition AddressZero :: string where
  "AddressZero = ''0x0000000000000000000000000000000000000000''"

text \<open>
  Everything from the fee amount to the three pushes, for an order that passed the
  checks: \<open>i\<close> is the order hash, \<open>k\<close> the contract kind, \<open>fs\<close> and \<open>ap\<close> the fillability
  and approval status, \<open>ts\<close> the token set id, \<open>sh\<close> the schema hash.
\<close>

definition priceAndPush ::
  "Env \<Rightarrow> OrderMetadata \<Rightarrow> BaseOrder \<Rightarrow> string \<Rightarrow> string \<Rightarrow> string \<Rightarrow> string \<Rightarrow> string \<Rightarrow> string
     \<Rightarrow> Handled" where
  "priceAndPush env md p i k fs ap ts sh =
     (let feeAmount = getFeeAmount p;
          side = (if direction p = BUY then ''buy'' else ''sell'')
      in case priceAndValue p of
           None \<Rightarrow> Thrown
         | Some (pr, v) \<Rightarrow>
             (case bn_div (feeAmount * 10000) (Some pr) of
                None \<Rightarrow> Thrown
              | Some feeBps \<Rightarrow>
                  if feeBps > 10000
                  then Returned \<lparr>id_res = i, status = ''fees-too-high''\<rparr>
                  else
                    (let src = (case source md of Some s \<Rightarrow> Some s | None \<Rightarrow> Exchange env)
                     in case feeBreakdownOf pr (fees p) of
                          None \<Rightarrow> Thrown
                        | Some fb \<Rightarrow>
                            (case toNumber feeBps of
                               None \<Rightarrow> Thrown
                             | Some n \<Rightarrow>
                                 Pushed
                                   \<lparr>id_col = i,
                                    kind_col = ''opendao-'' @ k,
                                    side = side,
                                    fillability_status = fs,
                                    approval_status = ap,
                                    token_set_id = ts,
                                    token_set_schema_hash = sh,
                                    maker_col = maker p,
                                    taker_col = AddressZero,
                                    price = pr,
                                    value_col = v,
                                    quantity_remaining = nftAmount p,
                                    valid_between = (0, expiry p),
                                    nonce_col = nonce p,
                                    source_id =
                                      (case src of
                                         None \<Rightarrow> None
                                       | Some s \<Rightarrow> if s = [] then None else Some s),
                                    contract = nft p,
                                    fee_bps = n,
                                    fee_breakdown = fb,
                                    raw_data = p,
                                    expiration = expiry p\<rparr>
                                   \<lparr>id_res = i, status = ''success''\<rparr>
                                   \<lparr>order_ar = p, schemaHash_ar = sh, source_ar = src\<rparr>))))"

text \<open>
  From the fillability check to the token set, for an order that passed the checks
  before it.
\<close>

definition checkFillabilityAndTokenSet ::
  "Env \<Rightarrow> OrderMetadata \<Rightarrow> BaseOrder \<Rightarrow> string \<Rightarrow> string \<Rightarrow> Handled" where
  "checkFillabilityAndTokenSet env md p i k =
     (case fillability (offChainCheck env p) of
        None \<Rightarrow> Returned \<lparr>id_res = i, status = ''not-fillable''\<rparr>
      | Some (fs, ap) \<Rightarrow>
          (let sh = (case schemaHash md of
                       Some h \<Rightarrow> h
                     | None \<Rightarrow> generateSchemaHash env (schema md))
           in case resolveTokenSet env p sh of
                Inl _ \<Rightarrow> Thrown
              | Inr None \<Rightarrow> Returned \<lparr>id_res = i, status = ''invalid-token-set''\<rparr>
              | Inr (Some ts) \<Rightarrow>
                  if ts = []
                  then Returned \<lparr>id_res = i, status = ''invalid-token-set''\<rparr>
                  else priceAndPush env md p i k fs ap ts sh))"

text \<open>
  \<open>handleOrder\<close>, read against the rows \<open>db\<close> of the \<open>orders\<close> table. The checks are in
  the order of the source, and each condition is the source's condition: both payment
  token checks test the direction against \<open>BUY\<close>. A nonce query that rejects throws
  into the catch block.
\<close>

definition handleOrder :: "Env \<Rightarrow> DbOrder list \<Rightarrow> OrderInfo \<Rightarrow> Handled" where
  "handleOrder env db info =
     (case Order_new env (orderParams info) of
        None \<Rightarrow> Thrown
      | Some p \<Rightarrow>
          (case Order_hash env p of
             None \<Rightarrow> Thrown
           | Some i \<Rightarrow>
               if orderExists db i
               then Returned \<lparr>id_res = i, status = ''already-exists''\<rparr>
               else
                 (case getContractKind env (nft p) of
                    None \<Rightarrow> Returned \<lparr>id_res = i, status = ''unknown-order-kind''\<rparr>
                  | Some k \<Rightarrow>
                      if k = []
                      then Returned \<lparr>id_res = i, status = ''unknown-order-kind''\<rparr>
                      else
                        (case nonceExists env db k p of
                           None \<Rightarrow> Thrown
                         | Some e \<Rightarrow>
                             if e
                             then Returned \<lparr>id_res = i, status = ''duplicated-nonce''\<rparr>
                             else if currentTime env \<ge> expiry p
                             then Returned \<lparr>id_res = i, status = ''expired''\<rparr>
                             else if direction p = BUY \<and> Some (erc20Token p) \<noteq> Weth env
                             then Returned \<lparr>id_res = i, status = ''unsupported-payment-token''\<rparr>
                             else if direction p = BUY \<and> Some (erc20Token p) \<noteq> Eth env
                             then Returned \<lparr>id_res = i, status = ''unsupported-payment-token''\<rparr>
                             else if taker p \<noteq> AddressZero
                             then Returned \<lparr>id_res = i, status = ''unsupported-taker''\<rparr>
                             else if \<not> checkValidity env p
                             then Returned \<lparr>id_res = i, status = ''invalid''\<rparr>
                             else if \<not> checkSignature env p
                             then Returned \<lparr>id_res = i, status = ''invalid-signature''\<rparr>
                             else checkFillabilityAndTokenSet env (metadata info) p i k))))"

subsection \<open>\<open>save\<close>\<close>

text \<open>
  The \<open>orders\<close> table and what \<open>save\<close> does to the outside, in the order in which it
  does it: the bulk insert, the enqueueing of the events, the relay.
\<close>

datatype Effect =
    BulkInsert "DbOrder list"
  | AddToQueue "QueueEvent list"
  | ArweaveRelay "ArweaveEntry list"

record World =
  orders :: "DbOrder list"
  effects :: "Effect list"

text \<open>
  \<open>INSERT ... ON CONFLICT DO NOTHING\<close>: the rows are taken one by one, and a row whose
  \<open>id\<close> (the primary key) is in the table, or was inserted earlier by the same statement,
  is skipped.
\<close>

definition insertOnConflictDoNothing :: "DbOrder list \<Rightarrow> DbOrder list \<Rightarrow> DbOrder list" where
  "insertOnConflictDoNothing tbl rows =
     fold (\<lambda>r t. if orderExists t (id_col r) then t else t @ [r]) rows tbl"

fun resultsOf :: "Handled \<Rightarrow> SaveResult list" where
  "resultsOf Thrown = []"
| "resultsOf (Returned r) = [r]"
| "resultsOf (Pushed row r a) = [r]"

fun orderValuesOf :: "Handled \<Rightarrow> DbOrder list" where
  "orderValuesOf Thrown = []"
| "orderValuesOf (Returned r) = []"
| "orderValuesOf (Pushed row r a) = [row]"

fun arweaveDataOf :: "Handled \<Rightarrow> ArweaveEntry list" where
  "arweaveDataOf Thrown = []"
| "arweaveDataOf (Returned r) = []"
| "arweaveDataOf (Pushed row r a) = [a]"

definition newOrderEvent :: "SaveResult \<Rightarrow> QueueEvent" where
  "newOrderEvent r =
     \<lparr>context_ev = ''new-order-'' @ id_res r, id_ev = id_res r, trigger_kind = ''new-order''\<rparr>"

text \<open>
  \<open>save\<close>. Every \<open>handleOrder\<close> of the batch reads the table before the one bulk
  insert, which comes after all of them, so each runs against the table as it was at
  the call. The handlers run concurrently and push in the order in which they finish;
  the arrays are given here in the order of the input.
\<close>

definition save :: "Env \<Rightarrow> World \<Rightarrow> OrderInfo list \<Rightarrow> bool \<Rightarrow> SaveResult list \<times> World" where
  "save env w orderInfos relayToArweave =
     (let hs = map (handleOrder env (orders w)) orderInfos;
          results = concat (map resultsOf hs);
          orderValues = concat (map orderValuesOf hs);
          arweaveData = (if relayToArweave then concat (map arweaveDataOf hs) else [])
      in if orderValues \<noteq> []
         then (results,
               \<lparr>orders = insertOnConflictDoNothing (orders w) orderValues,
                effects = effects w
                  @ [BulkInsert orderValues,
                     AddToQueue (map newOrderEvent
                                   (filter (\<lambda>r. status r = ''success'') results))]
                  @ (if relayToArweave then [ArweaveRelay arweaveData] else [])\<rparr>)
         else (results, w))"

section \<open>The sources registry (class \<open>Sources\<close>)\<close>

text \<open>
  Modelled from the spec: the class \<open>SourcesEntity\<close> (\<open>models/sources/sources-entity\<close>)
  is not part of the sources. An entity is the record of the parameters it is
  constructed from, a numeric identifier, a name, an address and the metadata, with the
  metadata fields that \<open>Sources\<close> reads and writes.
\<close>

record SourcesMetadata =
  icon :: "string option"
  tokenUrlMainnet :: "string option"
  tokenUrlRinkeby :: "string option"
  tokenUrlFantom :: "string option"
  url :: "string option"

record SourcesEntity =
  id_src :: int
  name_src :: string
  address_src :: string
  metadata_src :: SourcesMetadata

text \<open>
  The three lookup tables are plain objects created by \<open>{}\<close>. The own properties of
  such an object are a map; its prototype is \<open>Object.prototype\<close>, and the operator
  \<open>in\<close> and a property read both follow the prototype chain. These are the property
  names of \<open>Object.prototype\<close>.
\<close>

definition objectPrototypeKeys :: "string list" where
  "objectPrototypeKeys =
     [''constructor'', ''__defineGetter__'', ''__defineSetter__'', ''hasOwnProperty'',
      ''__lookupGetter__'', ''__lookupSetter__'', ''isPrototypeOf'', ''propertyIsEnumerable'',
      ''toString'', ''valueOf'', ''__proto__'', ''toLocaleString'']"

text \<open>
  A value read from a table: an entity stored there, a member inherited from
  \<open>Object.prototype\<close> (a built-in function or object, named by its key), or undefined.
\<close>

datatype JsValue = Entity SourcesEntity | Inherited string | Undefined

text \<open>\<open>key in obj\<close> and \<open>obj[key]\<close>\<close>

definition jsIn :: "(string \<Rightarrow> SourcesEntity option) \<Rightarrow> string \<Rightarrow> bool" where
  "jsIn obj key = (obj key \<noteq> None \<or> key \<in> set objectPrototypeKeys)"

definition jsGet :: "(string \<Rightarrow> SourcesEntity option) \<Rightarrow> string \<Rightarrow> JsValue" where
  "jsGet obj key =
     (case obj key of
        Some e \<Rightarrow> Entity e
      | None \<Rightarrow> if key \<in> set objectPrototypeKeys then Inherited key else Undefined)"

text \<open>
  \<open>sources\<close> is indexed by numbers. The property key of a number is its decimal
  rendering, which is not the name of any inherited property, so for that table
  \<open>id in this.sources\<close> is membership in the own properties; its keys are integers here.
\<close>

record Sources =
  sources :: "int \<Rightarrow> SourcesEntity option"
  sourcesByNames :: "string \<Rightarrow> SourcesEntity option"
  sourcesByAddress :: "string \<Rightarrow> SourcesEntity option"

text \<open>\<open>_.toLower\<close>, on ASCII.\<close>

definition toLowerChar :: "char \<Rightarrow> char" where
  "toLowerChar c =
     (let n = (of_char c :: nat) in if 65 \<le> n \<and> n \<le> 90 then char_of (n + 32) else c)"

definition toLower :: "string \<Rightarrow> string" where
  "toLower s = map toLowerChar s"

definition getDefaultSource :: SourcesEntity where
  "getDefaultSource =
     \<lparr>id_src = 0,
      name_src = ''Enjoyooor NFT'',
      address_src = AddressZero,
      metadata_src =
        \<lparr>icon = Some ''https://enjoyooor.com/logo.png'',
         tokenUrlMainnet =
           Some ''https://www.reservoir.market/collections/${contract}/${tokenId}'',
         tokenUrlRinkeby =
           Some ''https://www.reservoir.fun/collections/${contract}/${tokenId}'',
         tokenUrlFantom =
           Some ''https://www.enjoyooor.com/collections/${contract}/${tokenId}'',
         url = None\<rparr>\<rparr>"

definition get :: "Sources \<Rightarrow> int \<Rightarrow> SourcesEntity" where
  "get s i = (case sources s i of Some e \<Rightarrow> e | None \<Rightarrow> getDefaultSource)"

definition getByName :: "Sources \<Rightarrow> string \<Rightarrow> bool \<Rightarrow> JsValue" where
  "getByName s name returnDefault =
     (if jsIn (sourcesByNames s) (toLower name)
      then jsGet (sourcesByNames s) (toLower name)
      else if returnDefault then Entity getDefaultSource
      else Undefined)"

text \<open>A string is truthy when it is defined and not empty.\<close>

definition truthy :: "string option \<Rightarrow> bool" where
  "truthy x = (case x of None \<Rightarrow> False | Some s \<Rightarrow> s \<noteq> [])"

text \<open>
  \<open>getTokenUrl\<close>, with the configured chain id and lodash's \<open>_.replace\<close> as parameters.
  The result is \<open>None\<close> where the function returns undefined.
\<close>

definition getTokenUrl ::
  "nat \<Rightarrow> (string \<Rightarrow> string \<Rightarrow> string \<Rightarrow> string) \<Rightarrow> SourcesEntity \<Rightarrow> string \<Rightarrow> string
     \<Rightarrow> string option" where
  "getTokenUrl chainId replace e c t =
     (if chainId = 1
      then (case tokenUrlMainnet (metadata_src e) of
              None \<Rightarrow> None
            | Some tpl \<Rightarrow>
                if tpl \<noteq> [] \<and> c \<noteq> [] \<and> t \<noteq> []
                then Some (replace (replace tpl ''${contract}'' c) ''${tokenId}'' t)
                else None)
      else (case tokenUrlFantom (metadata_src e) of
              None \<Rightarrow> None
            | Some tpl \<Rightarrow>
                if tpl \<noteq> [] \<and> c \<noteq> [] \<and> t \<noteq> []
                then Some (replace (replace tpl ''${contract}'' c) ''${tokenId}'' t)
                else None))"

text \<open>
  \<open>getByAddress\<close>, which returns a value and changes the registry. The value is
  \<open>None\<close> when the assignment to \<open>sourceEntity.metadata.url\<close> throws, which it does on
  a member inherited from \<open>Object.prototype\<close>: that value is truthy and has no
  \<open>metadata\<close>. An entity found in \<open>sourcesByAddress\<close> is the object stored there, so
  the assignment changes the table entry, and a later lookup of the address sees the
  \<open>url\<close>; the default source is a new object at each call. (The entities of the
  other two tables are other objects and are left as they are.)
\<close>

definition getByAddress ::
  "nat \<Rightarrow> (string \<Rightarrow> string \<Rightarrow> string \<Rightarrow> string) \<Rightarrow> Sources \<Rightarrow> string \<Rightarrow> string option
     \<Rightarrow> string option \<Rightarrow> bool \<Rightarrow> JsValue option \<times> Sources" where
  "getByAddress chainId replace s address c t returnDefault =
     (let sourceEntity =
            (if jsIn (sourcesByAddress s) (toLower address)
             then jsGet (sourcesByAddress s) (toLower address)
             else if returnDefault then Entity getDefaultSource
             else Undefined)
      in if sourceEntity \<noteq> Undefined \<and> truthy c \<and> truthy t
         then (case sourceEntity of
                 Entity e \<Rightarrow>
                   (let e' = e\<lparr>metadata_src :=
                                 (metadata_src e)\<lparr>url :=
                                    getTokenUrl chainId replace e (the c) (the t)\<rparr>\<rparr>
                    in (Some (Entity e'),
                        if sourcesByAddress s (toLower address) \<noteq> None
                        then s\<lparr>sourcesByAddress :=
                                 (sourcesByAddress s)(toLower address \<mapsto> e')\<rparr>
                        else s))
               | Inherited k \<Rightarrow> (None, s)
               | Undefined \<Rightarrow> (Some Undefined, s))
         else (Some sourceEntity, s))"

section \<open>Example data\<close>

text \<open>
  An environment in which the wrapped-native token and the native placeholder differ, as
  they do on every chain, the order hash is read off the order's fields, every order
  is structurally valid and signed, the fillability check depends on the token id, and
  the column \<open>order_kind\<close> of a row holds what its column \<open>kind\<close> holds.
\<close>

definition exEnv :: Env where
  "exEnv =
     \<lparr>Order_new = Some,
      Order_hash = (\<lambda>p. Some (maker p @ ''/'' @ nonce p @ ''/'' @ nft p @ ''/'' @ nftId p)),
      getContractKind =
        (\<lambda>a. if a = ''0xnft1155'' then Some ''erc1155''
             else if a = ''0xnft721'' then Some ''erc721'' else None),
      currentTime = 1000,
      Weth = Some ''0xweth'',
      Eth = Some ''0xeeee'',
      Exchange = Some ''0xexchange'',
      checkValidity = (\<lambda>p. True),
      checkSignature = (\<lambda>p. True),
      offChainCheck =
        (\<lambda>p. if nftId p = ''3'' then Some ''no-balance''
             else if nftId p = ''4'' then Some ''no-approval''
             else if nftId p = ''5'' then Some ''no-balance-no-approval''
             else if nftId p = ''6'' then Some ''filled''
             else None),
      generateSchemaHash = (\<lambda>s. ''0xschema''),
      singleToken_save = (\<lambda>t. Some [id_ts t]),
      order_kind = (\<lambda>r. Some (kind_col r))\<rparr>"

definition exMetadata :: OrderMetadata where
  "exMetadata = \<lparr>schemaHash = None, schema = None, source = None\<rparr>"

definition exWorld :: World where
  "exWorld = \<lparr>orders = [], effects = []\<rparr>"

text \<open>A sell order for one token of a 721 contract, 100 plus a fee of 10, paid in the native placeholder.\<close>

definition exSell :: BaseOrder where
  "exSell =
     \<lparr>kind = Some ''erc721-single-token'', direction = SELL, maker = ''0xmaker'',
      taker = AddressZero, expiry = 2000, nonce = ''7'', erc20Token = ''0xeeee'',
      erc20TokenAmount = 100,
      fees = [\<lparr>recipient = ''0xfee'', amount = 10, feeData = ''0x''\<rparr>],
      nft = ''0xnft721'', nftId = ''1'', nftAmount = None\<rparr>"

definition exInfo :: "BaseOrder \<Rightarrow> OrderInfo" where
  "exInfo p = \<lparr>orderParams = p, metadata = exMetadata\<rparr>"

text \<open>The row that \<open>save\<close> writes for \<open>exSell\<close>.\<close>

definition exSellRow :: DbOrder where
  "exSellRow =
     \<lparr>id_col = ''0xmaker/7/0xnft721/1'', kind_col = ''opendao-erc721'', side = ''sell'',
      fillability_status = ''fillable'', approval_status = ''approved'',
      token_set_id = ''token:0xnft721:1'', token_set_schema_hash = ''0xschema'',
      maker_col = ''0xmaker'', taker_col = AddressZero, price = 110, value_col = 110,
      quantity_remaining = None, valid_between = (0, 2000), nonce_col = ''7'',
      source_id = Some ''0xexchange'', contract = ''0xnft721'', fee_bps = 909,
      fee_breakdown = [\<lparr>kind_fb = ''royalty'', recipient_fb = ''0xfee'', bps = 909\<rparr>],
      raw_data = exSell, expiration = 2000\<rparr>"

text \<open>The same sell order quoting another payment token.\<close>

definition exSellOtherToken :: BaseOrder where
  "exSellOtherToken = exSell\<lparr>erc20Token := ''0xdead''\<rparr>"

text \<open>The same sell order for another token of the contract: same maker, nonce, contract, amount and fee.\<close>

definition exSellSameNonce :: BaseOrder where
  "exSellSameNonce = exSell\<lparr>nftId := ''2''\<rparr>"

text \<open>The same sell order with no amount and no fee: its price is zero.\<close>

definition exSellZeroPrice :: BaseOrder where
  "exSellZeroPrice = exSell\<lparr>erc20TokenAmount := 0, fees := []\<rparr>"

text \<open>The same sell order, expired.\<close>

definition exSellExpired :: BaseOrder where
  "exSellExpired = exSell\<lparr>expiry := 1000\<rparr>"

text \<open>The same sell order for a token whose owner has no balance.\<close>

definition exSellNoBalance :: BaseOrder where
  "exSellNoBalance = exSell\<lparr>nftId := ''3''\<rparr>"

text \<open>A sell order for 3 units of a token of an 1155 contract, 301 plus a fee of 30.\<close>

definition exSell1155 :: BaseOrder where
  "exSell1155 =
     \<lparr>kind = Some ''erc1155-single-token'', direction = SELL, maker = ''0xmaker'',
      taker = AddressZero, expiry = 2000, nonce = ''8'', erc20Token = ''0xeeee'',
      erc20TokenAmount = 301,
      fees = [\<lparr>recipient = ''0xfee'', amount = 30, feeData = ''0x''\<rparr>],
      nft = ''0xnft1155'', nftId = ''1'', nftAmount = Some 3\<rparr>"

text \<open>The 1155 sell order with no amount, 2 units and a fee of 10: the fee is twice the unit price.\<close>

definition exSell1155HighFee :: BaseOrder where
  "exSell1155HighFee =
     exSell1155\<lparr>erc20TokenAmount := 0, nftAmount := Some 2,
                 fees := [\<lparr>recipient = ''0xfee'', amount = 10, feeData = ''0x''\<rparr>]\<rparr>"

text \<open>The row that \<open>save\<close> writes for \<open>exSell1155\<close>.\<close>

definition exSell1155Row :: DbOrder where
  "exSell1155Row =
     \<lparr>id_col = ''0xmaker/8/0xnft1155/1'', kind_col = ''opendao-erc1155'', side = ''sell'',
      fillability_status = ''fillable'', approval_status = ''approved'',
      token_set_id = ''token:0xnft1155:1'', token_set_schema_hash = ''0xschema'',
      maker_col = ''0xmaker'', taker_col = AddressZero, price = 110, value_col = 110,
      quantity_remaining = Some 3, valid_between = (0, 2000), nonce_col = ''8'',
      source_id = Some ''0xexchange'', contract = ''0xnft1155'', fee_bps = 2727,
      fee_breakdown = [\<lparr>kind_fb = ''royalty'', recipient_fb = ''0xfee'', bps = 2727\<rparr>],
      raw_data = exSell1155, expiration = 2000\<rparr>"

text \<open>The 721 sell order for a token whose fillability check fails for another reason.\<close>

definition exSellFilled :: BaseOrder where
  "exSellFilled = exSell\<lparr>nftId := ''6''\<rparr>"

text \<open>The same sell order for tokens whose fillability check fails on the approval, and on both.\<close>

definition exSellNoApproval :: BaseOrder where
  "exSellNoApproval = exSell\<lparr>nftId := ''4''\<rparr>"

definition exSellNoBalanceNoApproval :: BaseOrder where
  "exSellNoBalanceNoApproval = exSell\<lparr>nftId := ''5''\<rparr>"

text \<open>A registry with one source loaded.\<close>

definition exSource :: SourcesEntity where
  "exSource =
     \<lparr>id_src = 1, name_src = ''OpenSea'', address_src = ''0x5b3256965e7c3cf26e11fcaf296dfc8807c01073'',
      metadata_src = \<lparr>icon = None, tokenUrlMainnet = None, tokenUrlRinkeby = None,
                      tokenUrlFantom = None, url = None\<rparr>\<rparr>"

definition exSources :: Sources where
  "exSources =
     \<lparr>sources = (\<lambda>i. if i = 1 then Some exSource else None),
      sourcesByNames = (\<lambda>n. if n = ''opensea'' then Some exSource else None),
      sourcesByAddress =
        (\<lambda>a. if a = ''0x5b3256965e7c3cf26e11fcaf296dfc8807c01073'' then Some exSource else None)\<rparr>"

section \<open>Properties\<close>

subsection \<open>The outcomes of \<open>handleOrder\<close>\<close>

lemma priceAndPush_cases:
  "priceAndPush env md p i k fs ap ts sh = Thrown
   \<or> priceAndPush env md p i k fs ap ts sh = Returned \<lparr>id_res = i, status = ''fees-too-high''\<rparr>
   \<or> (\<exists>row a. priceAndPush env md p i k fs ap ts sh = Pushed row \<lparr>id_res = i, status = ''success''\<rparr> a
         \<and> id_col row = i)"
  by (simp add: priceAndPush_def Let_def split: option.split prod.split)

lemma priceAndPush_Pushed:
  assumes "priceAndPush env md p i k fs ap ts sh = Pushed row r a"
  shows "r = \<lparr>id_res = i, status = ''success''\<rparr>"
    and "id_col row = i"
    and "kind_col row = ''opendao-'' @ k"
    and "fillability_status row = fs"
    and "approval_status row = ap"
    and "raw_data row = p"
    and "maker_col row = maker p"
    and "nonce_col row = nonce p"
    and "contract row = nft p"
    and "priceAndValue p = Some (price row, value_col row)"
    and "price row \<noteq> 0"
    and "fee_bps row = getFeeAmount p * 10000 div price row"
    and "fee_bps row \<le> 10000"
  using assms
  by (auto simp add: priceAndPush_def Let_def bn_div_def toNumber_def
      split: option.splits prod.splits if_splits)

lemma checkFillabilityAndTokenSet_Pushed:
  assumes "checkFillabilityAndTokenSet env md p i k = Pushed row r a"
  shows "\<exists>ts sh. fillability (offChainCheck env p) = Some (fillability_status row, approval_status row)
           \<and> (kind p = Some ''erc721-single-token'' \<or> kind p = Some ''erc1155-single-token'')
           \<and> priceAndPush env md p i k (fillability_status row) (approval_status row) ts sh
               = Pushed row r a"
proof -
  from assms obtain fs ap where f: "fillability (offChainCheck env p) = Some (fs, ap)"
    by (cases "fillability (offChainCheck env p)") (auto simp: checkFillabilityAndTokenSet_def)
  define sh where "sh = (case schemaHash md of Some h \<Rightarrow> h | None \<Rightarrow> generateSchemaHash env (schema md))"
  from assms f obtain ts where t: "resolveTokenSet env p sh = Inr (Some ts)" 
    and pp: "priceAndPush env md p i k fs ap ts sh = Pushed row r a"
    by (auto simp: checkFillabilityAndTokenSet_def sh_def Let_def
        split: sum.splits option.splits if_splits)
  from t have kd: "kind p = Some ''erc721-single-token'' \<or> kind p = Some ''erc1155-single-token''"
    by (auto simp: resolveTokenSet_def split: if_splits)
  from pp have "fillability_status row = fs" "approval_status row = ap"
    by (rule priceAndPush_Pushed)+
  with f kd pp show ?thesis by blast
qed

lemma checkFillabilityAndTokenSet_Returned:
  assumes "checkFillabilityAndTokenSet env md p i k = Returned r"
  shows "id_res r = i \<and> status r \<in> {''not-fillable'', ''invalid-token-set'', ''fees-too-high''}"
proof -
  have "?thesis" if "priceAndPush env md p i k fs ap ts sh = Returned r" for fs ap ts sh
    using that priceAndPush_cases [of env md p i k fs ap ts sh] by auto
  with assms show ?thesis
    by (auto simp: checkFillabilityAndTokenSet_def Let_def
        split: sum.splits option.splits if_splits prod.splits)
qed

lemma handleOrder_Pushed:
  assumes "handleOrder env db info = Pushed row r a"
  shows "\<exists>p k. Order_new env (orderParams info) = Some p
           \<and> Order_hash env p = Some (id_col row)
           \<and> \<not> orderExists db (id_col row)
           \<and> getContractKind env (nft p) = Some k \<and> k \<noteq> []
           \<and> nonceExists env db k p = Some False
           \<and> currentTime env < expiry p
           \<and> \<not> (direction p = BUY \<and> Some (erc20Token p) \<noteq> Weth env)
           \<and> \<not> (direction p = BUY \<and> Some (erc20Token p) \<noteq> Eth env)
           \<and> taker p = AddressZero \<and> checkValidity env p \<and> checkSignature env p
           \<and> checkFillabilityAndTokenSet env (metadata info) p (id_col row) k = Pushed row r a"
proof -
  from assms obtain p where p: "Order_new env (orderParams info) = Some p"
    by (cases "Order_new env (orderParams info)") (auto simp: handleOrder_def)
  from assms p obtain i where i: "Order_hash env p = Some i"
    by (cases "Order_hash env p") (auto simp: handleOrder_def)
  from assms p i obtain k where k: "getContractKind env (nft p) = Some k"
    by (cases "getContractKind env (nft p)") (auto simp: handleOrder_def split: if_splits)
  from assms p i k have rest: "\<not> orderExists db i" "k \<noteq> []" "nonceExists env db k p = Some False"
    "currentTime env < expiry p"
    "\<not> (direction p = BUY \<and> Some (erc20Token p) \<noteq> Weth env)"
    "\<not> (direction p = BUY \<and> Some (erc20Token p) \<noteq> Eth env)"
    "taker p = AddressZero" "checkValidity env p" "checkSignature env p"
    "checkFillabilityAndTokenSet env (metadata info) p i k = Pushed row r a"
    by (auto simp: handleOrder_def split: if_splits option.splits)
  from rest(10) obtain ts sh fs ap where "priceAndPush env (metadata info) p i k fs ap ts sh = Pushed row r a"
    using checkFillabilityAndTokenSet_Pushed by blast
  then have "id_col row = i" by (rule priceAndPush_Pushed)
  with p i k rest show ?thesis by blast
qed

lemma handleOrder_Returned_status:
  assumes "handleOrder env db info = Returned r"
  shows "status r \<noteq> ''success''"
proof -
  have "\<And>p i k. checkFillabilityAndTokenSet env (metadata info) p i k = Returned r \<Longrightarrow> ?thesis"
    using checkFillabilityAndTokenSet_Returned by fastforce
  with assms show ?thesis
    by (auto simp: handleOrder_def split: option.splits if_splits)
qed

lemma orderExists_mono: "set db \<subseteq> set db' \<Longrightarrow> orderExists db i \<Longrightarrow> orderExists db' i"
  by (auto simp: orderExists_def)

lemma oneOrNone_False: "oneOrNone rows = Some False \<longleftrightarrow> rows = []"
  by (simp add: oneOrNone_def split: list.split)

lemma nonceExists_mono:
  "set db \<subseteq> set db' \<Longrightarrow> nonceExists env db' k p = Some False
     \<Longrightarrow> nonceExists env db k p = Some False"
  by (auto simp: nonceExists_def oneOrNone_False filter_empty_conv split: if_splits)

lemma handleOrder_Pushed_mono:
  assumes sub: "set db \<subseteq> set db'" and pu: "handleOrder env db' info = Pushed row r a"
  shows "handleOrder env db info = Pushed row r a"
proof -
  from handleOrder_Pushed [OF pu] obtain p k where
    h: "Order_new env (orderParams info) = Some p" "Order_hash env p = Some (id_col row)"
       "\<not> orderExists db' (id_col row)" "getContractKind env (nft p) = Some k" "k \<noteq> []"
       "nonceExists env db' k p = Some False" "currentTime env < expiry p"
       "\<not> (direction p = BUY \<and> Some (erc20Token p) \<noteq> Weth env)"
       "\<not> (direction p = BUY \<and> Some (erc20Token p) \<noteq> Eth env)"
       "taker p = AddressZero" "checkValidity env p" "checkSignature env p"
       "checkFillabilityAndTokenSet env (metadata info) p (id_col row) k = Pushed row r a"
    by blast
  from sub h(3) have e: "\<not> orderExists db (id_col row)" using orderExists_mono by blast
  from sub h(6) have n: "nonceExists env db k p = Some False" by (rule nonceExists_mono)
  from h e n show ?thesis by (simp add: handleOrder_def)
qed

subsection \<open>The bulk insert\<close>

lemma orderExists_append: "orderExists (t @ u) i \<longleftrightarrow> orderExists t i \<or> orderExists u i"
  by (auto simp: orderExists_def)

lemma insert_shape:
  "\<exists>ys. insertOnConflictDoNothing tbl rows = tbl @ ys \<and> set ys \<subseteq> set rows
        \<and> (\<forall>y \<in> set ys. \<not> orderExists tbl (id_col y))
        \<and> length ys \<le> length rows"
proof (induction rows arbitrary: tbl)
  case Nil
  show ?case by (simp add: insertOnConflictDoNothing_def)
next
  case (Cons r rows)
  show ?case
  proof (cases "orderExists tbl (id_col r)")
    case True
    then have "insertOnConflictDoNothing tbl (r # rows) = insertOnConflictDoNothing tbl rows"
      by (simp add: insertOnConflictDoNothing_def)
    with Cons.IH [of tbl] show ?thesis by fastforce
  next
    case False
    then have eq: "insertOnConflictDoNothing tbl (r # rows) = insertOnConflictDoNothing (tbl @ [r]) rows"
      by (simp add: insertOnConflictDoNothing_def)
    from Cons.IH [of "tbl @ [r]"] obtain ys where
      ys: "insertOnConflictDoNothing (tbl @ [r]) rows = (tbl @ [r]) @ ys" "set ys \<subseteq> set rows"
          "\<forall>y \<in> set ys. \<not> orderExists (tbl @ [r]) (id_col y)" "length ys \<le> length rows"
      by blast
    from ys False eq have "insertOnConflictDoNothing tbl (r # rows) = tbl @ (r # ys)
        \<and> set (r # ys) \<subseteq> set (r # rows)
        \<and> (\<forall>y \<in> set (r # ys). \<not> orderExists tbl (id_col y))
        \<and> length (r # ys) \<le> length (r # rows)"
      by (auto simp: orderExists_append)
    then show ?thesis by blast
  qed
qed

lemma insert_exists:
  "r \<in> set rows \<Longrightarrow> orderExists (insertOnConflictDoNothing tbl rows) (id_col r)"
proof (induction rows arbitrary: tbl)
  case Nil
  then show ?case by simp
next
  case (Cons x rows)
  have step: "insertOnConflictDoNothing tbl (x # rows)
      = insertOnConflictDoNothing (if orderExists tbl (id_col x) then tbl else tbl @ [x]) rows"
    by (simp add: insertOnConflictDoNothing_def)
  show ?case
  proof (cases "r \<in> set rows")
    case True
    with Cons.IH step show ?thesis by simp
  next
    case False
    with Cons.prems have rx: "r = x" by simp
    define t where "t = (if orderExists tbl (id_col x) then tbl else tbl @ [x])"
    have e: "orderExists t (id_col x)" by (simp add: t_def orderExists_append) (simp add: orderExists_def)
    obtain ys where "insertOnConflictDoNothing t rows = t @ ys" using insert_shape by blast
    with e have "orderExists (insertOnConflictDoNothing t rows) (id_col x)"
      by (simp add: orderExists_append)
    with step rx show ?thesis by (simp add: t_def)
  qed
qed

lemma insert_known:
  "\<forall>r \<in> set rows. orderExists tbl (id_col r) \<Longrightarrow> insertOnConflictDoNothing tbl rows = tbl"
  by (induction rows) (simp_all add: insertOnConflictDoNothing_def)

lemma insert_idem:
  "insertOnConflictDoNothing (insertOnConflictDoNothing tbl rows) rows
     = insertOnConflictDoNothing tbl rows"
  by (rule insert_known) (simp add: insert_exists)

subsection \<open>\<open>save\<close> and its replay\<close>

lemma save_results:
  "fst (save env w batch relay) = concat (map resultsOf (map (handleOrder env (orders w)) batch))"
  by (simp add: save_def Let_def)

lemma save_orders:
  "orders (snd (save env w batch relay))
     = insertOnConflictDoNothing (orders w)
         (concat (map orderValuesOf (map (handleOrder env (orders w)) batch)))"
proof (cases "concat (map orderValuesOf (map (handleOrder env (orders w)) batch)) = []")
  case True
  have "snd (save env w batch relay) = w"
    unfolding save_def Let_def by (simp only: True simp_thms if_False snd_conv)
  with True show ?thesis by (simp only: insertOnConflictDoNothing_def fold_simps)
next
  case False
  then show ?thesis by (simp add: save_def Let_def)
qed

lemma save_nothing_pushed:
  "concat (map orderValuesOf (map (handleOrder env (orders w)) batch)) = []
     \<Longrightarrow> snd (save env w batch relay) = w"
  unfolding save_def Let_def by (simp only: simp_thms if_False snd_conv)

lemma pushed_in_orderValues:
  "info \<in> set batch \<Longrightarrow> handleOrder env db info = Pushed row r a
     \<Longrightarrow> row \<in> set (concat (map orderValuesOf (map (handleOrder env db) batch)))"
  by force

lemma save_keeps_rows: "set (orders w) \<subseteq> set (orders (snd (save env w batch relay)))"
proof -
  obtain ys where "orders (snd (save env w batch relay)) = orders w @ ys"
    using insert_shape save_orders by metis
  then show ?thesis by simp
qed

lemma save_not_pushed_again:
  assumes "info \<in> set batch"
  shows "handleOrder env (orders (snd (save env w batch relay))) info \<noteq> Pushed row r a"
proof
  let ?w1 = "snd (save env w batch relay)"
  assume pu: "handleOrder env (orders ?w1) info = Pushed row r a"
  from handleOrder_Pushed_mono [OF save_keeps_rows pu]
  have "handleOrder env (orders w) info = Pushed row r a" .
  with assms have "row \<in> set (concat (map orderValuesOf (map (handleOrder env (orders w)) batch)))"
    by (rule pushed_in_orderValues)
  then have "orderExists (orders ?w1) (id_col row)"
    by (simp only: save_orders insert_exists)
  moreover from handleOrder_Pushed [OF pu] have "\<not> orderExists (orders ?w1) (id_col row)"
    by blast
  ultimately show False by contradiction
qed

lemma orderValuesOf_empty: "orderValuesOf h = [] \<longleftrightarrow> (\<forall>row r a. h \<noteq> Pushed row r a)"
  by (cases h) auto

lemma save_replay_fixed:
  "snd (save env (snd (save env w batch relay)) batch relay') = snd (save env w batch relay)"
proof -
  let ?w1 = "snd (save env w batch relay)"
  have "\<forall>info \<in> set batch. orderValuesOf (handleOrder env (orders ?w1) info) = []"
    using save_not_pushed_again by (simp add: orderValuesOf_empty)
  then have "concat (map orderValuesOf (map (handleOrder env (orders ?w1)) batch)) = []"
    by simp
  then show ?thesis by (rule save_nothing_pushed)
qed

lemma save_replay_many:
  "((\<lambda>v. snd (save env v batch relay)) ^^ Suc n) w = snd (save env w batch relay)"
  by (induction n) (simp_all add: save_replay_fixed)

lemma save_new_rows_pushed:
  assumes "row \<in> set (orders (snd (save env w batch relay)))" and "row \<notin> set (orders w)"
  shows "\<exists>info \<in> set batch. \<exists>r a. handleOrder env (orders w) info = Pushed row r a"
proof -
  let ?ovs = "concat (map orderValuesOf (map (handleOrder env (orders w)) batch))"
  obtain ys where "insertOnConflictDoNothing (orders w) ?ovs = orders w @ ys" "set ys \<subseteq> set ?ovs"
    using insert_shape by blast
  with assms have "row \<in> set ?ovs" by (auto simp: save_orders)
  then obtain info where i: "info \<in> set batch" "row \<in> set (orderValuesOf (handleOrder env (orders w) info))"
    by auto
  then show ?thesis by (cases "handleOrder env (orders w) info") auto
qed

lemma concat_map_drop_thrown:
  assumes "k < length batch" and "h (batch ! k) = Thrown" and "f Thrown = []"
  shows "concat (map f (map h batch)) = concat (map f (map h (take k batch @ drop (Suc k) batch)))"
proof -
  from assms(1) have "batch = take k batch @ batch ! k # drop (Suc k) batch"
    by (rule id_take_nth_drop)
  then have "concat (map f (map h batch))
      = concat (map f (map h (take k batch @ batch ! k # drop (Suc k) batch)))"
    by simp
  also have "\<dots> = concat (map f (map h (take k batch @ drop (Suc k) batch)))"
    using assms(2,3) by simp
  finally show ?thesis .
qed

lemma results_one_each:
  "\<forall>x \<in> set xs. h x \<noteq> Thrown \<Longrightarrow> length (concat (map resultsOf (map h xs))) = length xs"
proof (induction xs)
  case Nil
  show ?case by simp
next
  case (Cons x xs)
  then have "length (resultsOf (h x)) = 1" by (cases "h x") auto
  with Cons show ?case by simp
qed

lemma success_results_of_pushed:
  "map id_res (filter (\<lambda>r. status r = ''success'') (resultsOf (handleOrder env db info)))
     = map id_col (orderValuesOf (handleOrder env db info))"
proof (cases "handleOrder env db info")
  case Thrown
  then show ?thesis by simp
next
  case (Returned r)
  with handleOrder_Returned_status [OF Returned] show ?thesis by simp
next
  case (Pushed row r a)
  from handleOrder_Pushed [OF Pushed] obtain p k where
    "checkFillabilityAndTokenSet env (metadata info) p (id_col row) k = Pushed row r a"
    by blast
  from checkFillabilityAndTokenSet_Pushed [OF this] obtain ts sh where
    "priceAndPush env (metadata info) p (id_col row) k (fillability_status row)
       (approval_status row) ts sh = Pushed row r a"
    by blast
  from priceAndPush_Pushed(1) [OF this] Pushed show ?thesis by simp
qed

lemma success_results_of_batch:
  "map id_res (filter (\<lambda>r. status r = ''success'')
                 (concat (map resultsOf (map (handleOrder env db) batch))))
     = map id_col (concat (map orderValuesOf (map (handleOrder env db) batch)))"
  by (induction batch) (simp_all add: success_results_of_pushed)

lemma handleOrder_Pushed_pricing:
  assumes "handleOrder env db info = Pushed row r a"
  shows "Order_new env (orderParams info) = Some (raw_data row)"
    and "kind (raw_data row) = Some ''erc721-single-token''
         \<or> kind (raw_data row) = Some ''erc1155-single-token''"
    and "priceAndValue (raw_data row) = Some (price row, value_col row)"
proof -
  from handleOrder_Pushed [OF assms] obtain p k where
    p: "Order_new env (orderParams info) = Some p"
    and c: "checkFillabilityAndTokenSet env (metadata info) p (id_col row) k = Pushed row r a"
    by blast
  from checkFillabilityAndTokenSet_Pushed [OF c] obtain ts sh where
    kd: "kind p = Some ''erc721-single-token'' \<or> kind p = Some ''erc1155-single-token''"
    and pp: "priceAndPush env (metadata info) p (id_col row) k (fillability_status row)
               (approval_status row) ts sh = Pushed row r a"
    by blast
  from priceAndPush_Pushed(6,10) [OF pp] p kd
  show "Order_new env (orderParams info) = Some (raw_data row)"
    and "kind (raw_data row) = Some ''erc721-single-token''
         \<or> kind (raw_data row) = Some ''erc1155-single-token''"
    and "priceAndValue (raw_data row) = Some (price row, value_col row)"
    by simp_all
qed

subsection \<open>The flags of the fillability check\<close>

lemma handleOrder_reach:
  assumes "Order_new env (orderParams info) = Some p" and "Order_hash env p = Some i"
    and "\<not> orderExists db i" and "getContractKind env (nft p) = Some k" and "k \<noteq> []"
    and "nonceExists env db k p = Some False" and "currentTime env < expiry p"
    and "\<not> (direction p = BUY \<and> Some (erc20Token p) \<noteq> Weth env)"
    and "\<not> (direction p = BUY \<and> Some (erc20Token p) \<noteq> Eth env)"
    and "taker p = AddressZero" and "checkValidity env p" and "checkSignature env p"
  shows "handleOrder env db info = checkFillabilityAndTokenSet env (metadata info) p i k"
  using assms by (auto simp: handleOrder_def)

lemma checkFillabilityAndTokenSet_stage:
  assumes "fillability (offChainCheck env p) = Some (fs, ap)"
  shows "checkFillabilityAndTokenSet env md p i k
     = (case resolveTokenSet env p
               (case schemaHash md of Some h \<Rightarrow> h | None \<Rightarrow> generateSchemaHash env (schema md)) of
          Inl u \<Rightarrow> Thrown
        | Inr None \<Rightarrow> Returned \<lparr>id_res = i, status = ''invalid-token-set''\<rparr>
        | Inr (Some ts) \<Rightarrow>
            if ts = []
            then Returned \<lparr>id_res = i, status = ''invalid-token-set''\<rparr>
            else priceAndPush env md p i k fs ap ts
                   (case schemaHash md of Some h \<Rightarrow> h | None \<Rightarrow> generateSchemaHash env (schema md)))"
  using assms by (simp add: checkFillabilityAndTokenSet_def Let_def)

lemma priceAndPush_flags:
  assumes pu: "priceAndPush env md p i k fs ap ts sh = Pushed row r a"
    and ex: "Exchange env' = Exchange env"
  shows "priceAndPush env' md p i k fs' ap' ts sh
           = Pushed (row\<lparr>fillability_status := fs', approval_status := ap'\<rparr>) r a"
proof -
  from pu obtain pr v where pv: "priceAndValue p = Some (pr, v)"
    by (cases "priceAndValue p") (auto simp: priceAndPush_def Let_def)
  from pu pv obtain b where b: "bn_div (getFeeAmount p * 10000) (Some pr) = Some b"
    by (cases "bn_div (getFeeAmount p * 10000) (Some pr)") (auto simp: priceAndPush_def Let_def)
  from pu pv b have le: "\<not> 10000 < b"
    by (auto simp: priceAndPush_def Let_def split: if_splits)
  from pu pv b le obtain fb where fb: "feeBreakdownOf pr (fees p) = Some fb"
    by (cases "feeBreakdownOf pr (fees p)") (auto simp: priceAndPush_def Let_def)
  from pu pv b le fb obtain n where n: "toNumber b = Some n"
    by (cases "toNumber b") (auto simp: priceAndPush_def Let_def)
  from pu le ex show ?thesis
    by (auto simp add: priceAndPush_def Let_def pv b fb n cong: option.case_cong)
qed

lemma checkFillabilityAndTokenSet_flags:
  assumes pu: "checkFillabilityAndTokenSet (env\<lparr>offChainCheck := f\<rparr>) md p i k = Pushed row r a"
    and fl: "fillability (offChainCheck env p) = Some (fs, ap)"
  shows "checkFillabilityAndTokenSet env md p i k
           = Pushed (row\<lparr>fillability_status := fs, approval_status := ap\<rparr>) r a"
proof -
  define sh where
    "sh = (case schemaHash md of Some h \<Rightarrow> h | None \<Rightarrow> generateSchemaHash env (schema md))"
  have she: "(case schemaHash md of Some h \<Rightarrow> h
              | None \<Rightarrow> generateSchemaHash (env\<lparr>offChainCheck := f\<rparr>) (schema md)) = sh"
    by (simp add: sh_def cong: option.case_cong)
  have rs: "resolveTokenSet (env\<lparr>offChainCheck := f\<rparr>) p sh = resolveTokenSet env p sh"
    by (simp add: resolveTokenSet_def)
  from pu obtain fs0 ap0 where
    f0: "fillability (offChainCheck (env\<lparr>offChainCheck := f\<rparr>) p) = Some (fs0, ap0)"
    by (cases "fillability (offChainCheck (env\<lparr>offChainCheck := f\<rparr>) p)")
       (auto simp: checkFillabilityAndTokenSet_def)
  have st0: "checkFillabilityAndTokenSet (env\<lparr>offChainCheck := f\<rparr>) md p i k
     = (case resolveTokenSet env p sh of
          Inl u \<Rightarrow> Thrown
        | Inr None \<Rightarrow> Returned \<lparr>id_res = i, status = ''invalid-token-set''\<rparr>
        | Inr (Some ts) \<Rightarrow>
            if ts = []
            then Returned \<lparr>id_res = i, status = ''invalid-token-set''\<rparr>
            else priceAndPush (env\<lparr>offChainCheck := f\<rparr>) md p i k fs0 ap0 ts sh)"
    unfolding checkFillabilityAndTokenSet_stage [OF f0] she rs ..
  have st: "checkFillabilityAndTokenSet env md p i k
     = (case resolveTokenSet env p sh of
          Inl u \<Rightarrow> Thrown
        | Inr None \<Rightarrow> Returned \<lparr>id_res = i, status = ''invalid-token-set''\<rparr>
        | Inr (Some ts) \<Rightarrow>
            if ts = []
            then Returned \<lparr>id_res = i, status = ''invalid-token-set''\<rparr>
            else priceAndPush env md p i k fs ap ts sh)"
    unfolding checkFillabilityAndTokenSet_stage [OF fl] sh_def ..
  from pu st0 obtain ts where ts: "resolveTokenSet env p sh = Inr (Some ts)" "ts \<noteq> []"
    and pp: "priceAndPush (env\<lparr>offChainCheck := f\<rparr>) md p i k fs0 ap0 ts sh = Pushed row r a"
    by (auto split: sum.splits option.splits if_splits)
  have "priceAndPush env md p i k fs ap ts sh
          = Pushed (row\<lparr>fillability_status := fs, approval_status := ap\<rparr>) r a"
    by (rule priceAndPush_flags [OF pp]) simp
  with ts st show ?thesis by simp
qed

lemma handleOrder_flags:
  assumes pu: "handleOrder (env\<lparr>offChainCheck := f\<rparr>) db info = Pushed row r a"
    and fl: "fillability (offChainCheck env (raw_data row)) = Some (fs, ap)"
  shows "handleOrder env db info
           = Pushed (row\<lparr>fillability_status := fs, approval_status := ap\<rparr>) r a"
proof -
  from handleOrder_Pushed [OF pu] obtain p k where
    hf: "Order_new (env\<lparr>offChainCheck := f\<rparr>) (orderParams info) = Some p
           \<and> Order_hash (env\<lparr>offChainCheck := f\<rparr>) p = Some (id_col row)
           \<and> \<not> orderExists db (id_col row)
           \<and> getContractKind (env\<lparr>offChainCheck := f\<rparr>) (nft p) = Some k \<and> k \<noteq> []
           \<and> nonceExists (env\<lparr>offChainCheck := f\<rparr>) db k p = Some False
           \<and> currentTime (env\<lparr>offChainCheck := f\<rparr>) < expiry p
           \<and> \<not> (direction p = BUY \<and> Some (erc20Token p) \<noteq> Weth (env\<lparr>offChainCheck := f\<rparr>))
           \<and> \<not> (direction p = BUY \<and> Some (erc20Token p) \<noteq> Eth (env\<lparr>offChainCheck := f\<rparr>))
           \<and> taker p = AddressZero \<and> checkValidity (env\<lparr>offChainCheck := f\<rparr>) p
           \<and> checkSignature (env\<lparr>offChainCheck := f\<rparr>) p
           \<and> checkFillabilityAndTokenSet (env\<lparr>offChainCheck := f\<rparr>) (metadata info) p (id_col row) k
               = Pushed row r a"
    by blast
  have ne: "nonceExists (env\<lparr>offChainCheck := f\<rparr>) db k p = nonceExists env db k p"
    by (simp add: nonceExists_def)
  from hf have h1: "Order_new env (orderParams info) = Some p" by simp
  from hf have h2: "Order_hash env p = Some (id_col row)" by simp
  from hf have h3: "\<not> orderExists db (id_col row)" by simp
  from hf have h4: "getContractKind env (nft p) = Some k" by simp
  from hf have h5: "k \<noteq> []" by simp
  from hf ne have h6: "nonceExists env db k p = Some False" by simp
  from hf have h7: "currentTime env < expiry p" by simp
  from hf have h8: "\<not> (direction p = BUY \<and> Some (erc20Token p) \<noteq> Weth env)" by auto
  from hf have h9: "\<not> (direction p = BUY \<and> Some (erc20Token p) \<noteq> Eth env)" by auto
  from hf have h10: "taker p = AddressZero" by simp
  from hf have h11: "checkValidity env p" by simp
  from hf have h12: "checkSignature env p" by simp
  from hf have cf: "checkFillabilityAndTokenSet (env\<lparr>offChainCheck := f\<rparr>) (metadata info) p
                      (id_col row) k = Pushed row r a"
    by simp
  from handleOrder_Pushed_pricing(1) [OF pu] h1 have "raw_data row = p" by simp
  with fl have flp: "fillability (offChainCheck env p) = Some (fs, ap)" by simp
  have "handleOrder env db info = checkFillabilityAndTokenSet env (metadata info) p (id_col row) k"
    by (rule handleOrder_reach [OF h1 h2 h3 h4 h5 h6 h7 h8 h9 h10 h11 h12])
  with checkFillabilityAndTokenSet_flags [OF cf flp] show ?thesis by simp
qed

lemma save_one_pushed:
  assumes "handleOrder env (orders w) info = Pushed row r a"
  shows "orders (snd (save env w [info] relay)) = orders w @ [row]"
    and "map status (fst (save env w [info] relay)) = [''success'']"
proof -
  from handleOrder_Pushed [OF assms] have "\<not> orderExists (orders w) (id_col row)" by blast
  with assms show "orders (snd (save env w [info] relay)) = orders w @ [row]"
    by (simp add: save_orders insertOnConflictDoNothing_def)
  from handleOrder_Pushed [OF assms] obtain p k where
    "checkFillabilityAndTokenSet env (metadata info) p (id_col row) k = Pushed row r a"
    by blast
  from checkFillabilityAndTokenSet_Pushed [OF this] obtain ts sh where
    "priceAndPush env (metadata info) p (id_col row) k (fillability_status row)
       (approval_status row) ts sh = Pushed row r a"
    by blast
  from priceAndPush_Pushed(1) [OF this] assms
  show "map status (fst (save env w [info] relay)) = [''success'']"
    by (simp add: save_results)
qed

subsection \<open>The example orders, evaluated\<close>

lemmas handle_defs =
  handleOrder_def checkFillabilityAndTokenSet_def priceAndPush_def priceAndValue_def
  fillability_def resolveTokenSet_def orderExists_def nonceExists_def oneOrNone_def getFeeAmount_def
  kindStartsWithErc1155_def bn_div_def toNumber_def AddressZero_def Let_def

lemmas ex_defs =
  exEnv_def exInfo_def exMetadata_def exSell_def exSellRow_def exSellOtherToken_def
  exSellSameNonce_def exSellZeroPrice_def exSellExpired_def exSellNoBalance_def
  exSell1155_def exWorld_def

lemma ex_handle_sell:
  "handleOrder exEnv [] (exInfo exSell)
     = Pushed exSellRow \<lparr>id_res = ''0xmaker/7/0xnft721/1'', status = ''success''\<rparr>
         \<lparr>order_ar = exSell, schemaHash_ar = ''0xschema'', source_ar = Some ''0xexchange''\<rparr>"
  by (simp add: handle_defs ex_defs)

lemma ex_handle_sell_again:
  "handleOrder exEnv [exSellRow] (exInfo exSell)
     = Returned \<lparr>id_res = ''0xmaker/7/0xnft721/1'', status = ''already-exists''\<rparr>"
  by (simp add: handle_defs ex_defs)

lemma ex_handle_zero_price: "handleOrder exEnv [] (exInfo exSellZeroPrice) = Thrown"
  by (simp add: handle_defs ex_defs)

lemma ex_handle_expired:
  "handleOrder exEnv [] (exInfo exSellExpired)
     = Returned \<lparr>id_res = ''0xmaker/7/0xnft721/1'', status = ''expired''\<rparr>"
  by (simp add: handle_defs ex_defs)

lemma ex_save_sell:
  "save exEnv exWorld [exInfo exSell] False
     = ([\<lparr>id_res = ''0xmaker/7/0xnft721/1'', status = ''success''\<rparr>],
        \<lparr>orders = [exSellRow],
         effects = [BulkInsert [exSellRow],
                    AddToQueue [\<lparr>context_ev = ''new-order-0xmaker/7/0xnft721/1'',
                                 id_ev = ''0xmaker/7/0xnft721/1'',
                                 trigger_kind = ''new-order''\<rparr>]]\<rparr>)"
proof -
  have "orders exWorld = []" "effects exWorld = []" by (simp_all add: exWorld_def)
  then show ?thesis
    by (simp add: save_def Let_def ex_handle_sell insertOnConflictDoNothing_def orderExists_def
        newOrderEvent_def)
qed


lemma ex_handle_other_token:
  "handleOrder exEnv [] (exInfo exSellOtherToken)
     = Pushed (exSellRow\<lparr>raw_data := exSellOtherToken\<rparr>)
         \<lparr>id_res = ''0xmaker/7/0xnft721/1'', status = ''success''\<rparr>
         \<lparr>order_ar = exSellOtherToken, schemaHash_ar = ''0xschema'',
          source_ar = Some ''0xexchange''\<rparr>"
  by (simp add: handle_defs ex_defs)

lemma ex_handle_high_fee:
  "handleOrder exEnv [] (exInfo exSell1155HighFee)
     = Returned \<lparr>id_res = ''0xmaker/8/0xnft1155/1'', status = ''fees-too-high''\<rparr>"
  by (simp add: handle_defs ex_defs exSell1155HighFee_def)

lemma ex_handle_1155:
  "handleOrder exEnv [] (exInfo exSell1155)
     = Pushed exSell1155Row \<lparr>id_res = ''0xmaker/8/0xnft1155/1'', status = ''success''\<rparr>
         \<lparr>order_ar = exSell1155, schemaHash_ar = ''0xschema'', source_ar = Some ''0xexchange''\<rparr>"
  by (simp add: handle_defs ex_defs exSell1155Row_def)

lemma ex_handle_same_nonce:
  "handleOrder exEnv [exSellRow] (exInfo exSellSameNonce)
     = Pushed (exSellRow\<lparr>id_col := ''0xmaker/7/0xnft721/2'', token_set_id := ''token:0xnft721:2'',
                        raw_data := exSellSameNonce\<rparr>)
         \<lparr>id_res = ''0xmaker/7/0xnft721/2'', status = ''success''\<rparr>
         \<lparr>order_ar = exSellSameNonce, schemaHash_ar = ''0xschema'',
          source_ar = Some ''0xexchange''\<rparr>"
  by (simp add: handle_defs ex_defs)

lemma ex_handle_same_nonce_any_order_kind:
  "handleOrder (exEnv\<lparr>order_kind := f\<rparr>) [exSellRow] (exInfo exSellSameNonce)
     = Pushed (exSellRow\<lparr>id_col := ''0xmaker/7/0xnft721/2'', token_set_id := ''token:0xnft721:2'',
                        raw_data := exSellSameNonce\<rparr>)
         \<lparr>id_res = ''0xmaker/7/0xnft721/2'', status = ''success''\<rparr>
         \<lparr>order_ar = exSellSameNonce, schemaHash_ar = ''0xschema'',
          source_ar = Some ''0xexchange''\<rparr>"
  by (simp add: handle_defs ex_defs)

lemma ex_handle_no_balance:
  "handleOrder exEnv [] (exInfo exSellNoBalance)
     = Pushed (exSellRow\<lparr>id_col := ''0xmaker/7/0xnft721/3'', fillability_status := ''no-balance'',
                        token_set_id := ''token:0xnft721:3'', raw_data := exSellNoBalance\<rparr>)
         \<lparr>id_res = ''0xmaker/7/0xnft721/3'', status = ''success''\<rparr>
         \<lparr>order_ar = exSellNoBalance, schemaHash_ar = ''0xschema'',
          source_ar = Some ''0xexchange''\<rparr>"
  by (simp add: handle_defs ex_defs)

lemma ex_handle_filled:
  "handleOrder exEnv [] (exInfo exSellFilled)
     = Returned \<lparr>id_res = ''0xmaker/7/0xnft721/6'', status = ''not-fillable''\<rparr>"
  by (simp add: handle_defs ex_defs exSellFilled_def)

lemma ex_handle_no_approval_passing:
  "handleOrder (exEnv\<lparr>offChainCheck := \<lambda>p. None\<rparr>) [] (exInfo exSellNoApproval)
     = Pushed (exSellRow\<lparr>id_col := ''0xmaker/7/0xnft721/4'', token_set_id := ''token:0xnft721:4'',
                        raw_data := exSellNoApproval\<rparr>)
         \<lparr>id_res = ''0xmaker/7/0xnft721/4'', status = ''success''\<rparr>
         \<lparr>order_ar = exSellNoApproval, schemaHash_ar = ''0xschema'',
          source_ar = Some ''0xexchange''\<rparr>"
  by (simp add: handle_defs ex_defs exSellNoApproval_def)

lemma ex_handle_no_balance_no_approval_passing:
  "handleOrder (exEnv\<lparr>offChainCheck := \<lambda>p. None\<rparr>) [] (exInfo exSellNoBalanceNoApproval)
     = Pushed (exSellRow\<lparr>id_col := ''0xmaker/7/0xnft721/5'', token_set_id := ''token:0xnft721:5'',
                        raw_data := exSellNoBalanceNoApproval\<rparr>)
         \<lparr>id_res = ''0xmaker/7/0xnft721/5'', status = ''success''\<rparr>
         \<lparr>order_ar = exSellNoBalanceNoApproval, schemaHash_ar = ''0xschema'',
          source_ar = Some ''0xexchange''\<rparr>"
  by (simp add: handle_defs ex_defs exSellNoBalanceNoApproval_def)

lemma ex_handle_no_balance_passing:
  "handleOrder (exEnv\<lparr>offChainCheck := \<lambda>p. None\<rparr>) [] (exInfo exSellNoBalance)
     = Pushed (exSellRow\<lparr>id_col := ''0xmaker/7/0xnft721/3'', token_set_id := ''token:0xnft721:3'',
                        raw_data := exSellNoBalance\<rparr>)
         \<lparr>id_res = ''0xmaker/7/0xnft721/3'', status = ''success''\<rparr>
         \<lparr>order_ar = exSellNoBalance, schemaHash_ar = ''0xschema'',
          source_ar = Some ''0xexchange''\<rparr>"
  by (simp add: handle_defs ex_defs)

section \<open>The claims\<close>

subsection \<open>Payment token policy\<close>

lemma sell_order_never_unsupported_payment_token:
  assumes "Order_new env (orderParams info) = Some p" and "direction p = SELL"
    and "handleOrder env db info = Returned r"
  shows "status r \<noteq> ''unsupported-payment-token''"
proof -
  have "status r \<noteq> ''unsupported-payment-token''"
    if "checkFillabilityAndTokenSet env (metadata info) p i k = Returned r" for i k
    using checkFillabilityAndTokenSet_Returned [OF that] by auto
  with assms show ?thesis
    by (auto simp: handleOrder_def split: option.splits if_splits)
qed

lemma buy_order_not_weth_rejected:
  assumes "Order_new env (orderParams info) = Some p" and "Order_hash env p = Some i"
    and "\<not> orderExists db i" and "getContractKind env (nft p) = Some k" and "k \<noteq> []"
    and "nonceExists env db k p = Some False" and "currentTime env < expiry p"
    and "direction p = BUY" and "Some (erc20Token p) \<noteq> Weth env"
  shows "handleOrder env db info = Returned \<lparr>id_res = i, status = ''unsupported-payment-token''\<rparr>"
  using assms by (simp add: handleOrder_def)

text \<open>
  C1 (the sell side of the payment token policy). At the sell order \<open>exSellOtherToken\<close>,
  which quotes a token that is not the native placeholder of the environment and passes
  every other check, \<open>save\<close> returns \<open>success\<close> and writes the row: the second payment
  token check tests the direction against \<open>BUY\<close>, so no sell order is ever checked.
\<close>

theorem sell_order_other_payment_token_accepted:
  "direction exSellOtherToken = SELL
   \<and> Some (erc20Token exSellOtherToken) \<noteq> Eth exEnv
   \<and> map status (fst (save exEnv exWorld [exInfo exSellOtherToken] False)) = [''success'']
   \<and> map raw_data (orders (snd (save exEnv exWorld [exInfo exSellOtherToken] False)))
       = [exSellOtherToken]"
proof -
  have w: "orders exWorld = []" by (simp add: exWorld_def)
  have "direction exSellOtherToken = SELL" "Some (erc20Token exSellOtherToken) \<noteq> Eth exEnv"
    by (simp_all add: exSellOtherToken_def exSell_def exEnv_def)
  moreover have "map status (fst (save exEnv exWorld [exInfo exSellOtherToken] False)) = [''success'']"
    by (simp add: save_results w ex_handle_other_token)
  moreover have "map raw_data (orders (snd (save exEnv exWorld [exInfo exSellOtherToken] False)))
       = [exSellOtherToken]"
    by (simp add: save_orders w ex_handle_other_token insertOnConflictDoNothing_def orderExists_def)
  ultimately show ?thesis by simp
qed

subsection \<open>Idempotence\<close>

text \<open>
  C2 (idempotent ingestion). When the ingestion of an order returned \<open>success\<close> and
  left the world \<open>w'\<close>, ingesting the same order again, at any later time and state of
  the chain (an environment \<open>env'\<close> that computes the same order identity), returns
  \<open>already-exists\<close> and changes nothing, so the table grew by at most one row over
  both attempts. The bulk insert only appends rows whose identity was unknown, and
  is the identity on rows that are all known. Replaying any batch any number of times
  in the same environment gives the world that the first run gave.
\<close>

theorem ingestion_idempotent:
  assumes "save env w [info] relay = (rs, w')"
    and "map status rs = [''success'']"
    and "Order_new env' = Order_new env" and "Order_hash env' = Order_hash env"
  shows "map status (fst (save env' w' [info] relay')) = [''already-exists'']
       \<and> snd (save env' w' [info] relay') = w'
       \<and> length (orders w') \<le> length (orders w) + 1
       \<and> (\<exists>ys. insertOnConflictDoNothing tbl rows = tbl @ ys
                \<and> (\<forall>y \<in> set ys. \<not> orderExists tbl (id_col y)))
       \<and> ((\<forall>x \<in> set rows. orderExists tbl (id_col x))
            \<longrightarrow> insertOnConflictDoNothing tbl rows = tbl)
       \<and> ((\<lambda>v. snd (save env v batch relay)) ^^ Suc n) w = snd (save env w batch relay)"
proof -
  let ?h = "handleOrder env (orders w) info"
  from assms(1) have rs: "rs = resultsOf ?h" and wd: "w' = snd (save env w [info] relay)"
    using save_results [of env w "[info]" relay] by simp_all
  from rs assms(2) obtain row r a where pu: "?h = Pushed row r a"
    using handleOrder_Returned_status [of env "orders w" info]
    by (cases ?h) auto
  from handleOrder_Pushed [OF pu] obtain p where
    p: "Order_new env (orderParams info) = Some p" "Order_hash env p = Some (id_col row)"
    by blast
  have o1: "orders w' = insertOnConflictDoNothing (orders w) [row]"
    by (simp add: wd save_orders pu)
  then have ex: "orderExists (orders w') (id_col row)"
    by (simp add: insert_exists)
  with p assms(3,4) have again:
    "handleOrder env' (orders w') info = Returned \<lparr>id_res = id_col row, status = ''already-exists''\<rparr>"
    by (simp add: handleOrder_def)
  have c1: "map status (fst (save env' w' [info] relay')) = [''already-exists'']"
    by (simp add: save_results again)
  have c2: "snd (save env' w' [info] relay') = w'"
    by (rule save_nothing_pushed) (simp add: again)
  obtain ys where "insertOnConflictDoNothing (orders w) [row] = orders w @ ys" "length ys \<le> length [row]"
    using insert_shape by blast
  with o1 have c3: "length (orders w') \<le> length (orders w) + 1" by simp
  have c4: "\<exists>ys. insertOnConflictDoNothing tbl rows = tbl @ ys
                \<and> (\<forall>y \<in> set ys. \<not> orderExists tbl (id_col y))"
    using insert_shape [of tbl rows] by blast
  have c5: "(\<forall>x \<in> set rows. orderExists tbl (id_col x))
            \<longrightarrow> insertOnConflictDoNothing tbl rows = tbl"
    using insert_known by blast
  have c6: "((\<lambda>v. snd (save env v batch relay)) ^^ Suc n) w = snd (save env w batch relay)"
    by (rule save_replay_many)
  from c1 c2 c3 c4 c5 c6 show ?thesis by blast
qed

theorem ingestion_idempotent_witness:
  "map status (fst (save exEnv exWorld [exInfo exSell] False)) = [''success'']
   \<and> map status (fst (save exEnv (snd (save exEnv exWorld [exInfo exSell] False))
                        [exInfo exSell] False)) = [''already-exists'']
   \<and> orders (snd (save exEnv (snd (save exEnv exWorld [exInfo exSell] False))
                        [exInfo exSell] False)) = [exSellRow]
   \<and> insertOnConflictDoNothing [exSellRow] [exSellRow] = [exSellRow]"
proof -
  have s: "save exEnv exWorld [exInfo exSell] False
      = (fst (save exEnv exWorld [exInfo exSell] False), snd (save exEnv exWorld [exInfo exSell] False))"
    by simp
  have ok: "map status (fst (save exEnv exWorld [exInfo exSell] False)) = [''success'']"
    by (simp add: ex_save_sell)
  have known: "\<forall>x \<in> set [exSellRow]. orderExists [exSellRow] (id_col x)"
    by (simp add: orderExists_def)
  from ingestion_idempotent [OF s ok refl refl, where relay' = False and tbl = "[exSellRow]"
      and rows = "[exSellRow]" and batch = "[]" and n = 0] known
  show ?thesis by (simp add: ex_save_sell)
qed

subsection \<open>Fees and prices\<close>

text \<open>
  C3 (fee rate bound). The row of an accepted order carries the fee basis points
  \<open>feeAmount * 10000 div price\<close>, between 0 and 10000; an order whose price and value
  are computed and whose fee basis points exceed 10000 gets \<open>fees-too-high\<close> at the
  pricing stage, which pushes no row; and every row that \<open>save\<close> adds to the table has
  fee basis points of at most 10000.
\<close>

theorem fee_bps_bounded:
  "(handleOrder env db info = Pushed row r a
      \<longrightarrow> 0 \<le> fee_bps row \<and> fee_bps row \<le> 10000
          \<and> fee_bps row = getFeeAmount (raw_data row) * 10000 div price row)
   \<and> (priceAndValue p = Some (pr, v) \<and> pr \<noteq> 0 \<and> 10000 < getFeeAmount p * 10000 div pr
      \<longrightarrow> priceAndPush env md p i k fs ap ts sh
            = Returned \<lparr>id_res = i, status = ''fees-too-high''\<rparr>
          \<and> orderValuesOf (priceAndPush env md p i k fs ap ts sh) = [])
   \<and> (\<forall>x \<in> set (orders (snd (save env w batch relay))).
         x \<in> set (orders w) \<or> fee_bps x \<le> 10000)"
proof -
  have a: "fee_bps row \<le> 10000 \<and> fee_bps row = getFeeAmount (raw_data row) * 10000 div price row"
    if "handleOrder env db info = Pushed row r a" for env db info row r a
  proof -
    from handleOrder_Pushed [OF that] obtain q k where
      "checkFillabilityAndTokenSet env (metadata info) q (id_col row) k = Pushed row r a"
      by blast
    from checkFillabilityAndTokenSet_Pushed [OF this] obtain ts sh where
      pp: "priceAndPush env (metadata info) q (id_col row) k (fillability_status row)
             (approval_status row) ts sh = Pushed row r a"
      by blast
    from priceAndPush_Pushed(6,12,13) [OF pp] show ?thesis by simp
  qed
  have b: "priceAndPush env md p i k fs ap ts sh = Returned \<lparr>id_res = i, status = ''fees-too-high''\<rparr>"
    if "priceAndValue p = Some (pr, v)" "pr \<noteq> 0" "10000 < getFeeAmount p * 10000 div pr"
    using that by (simp add: priceAndPush_def bn_div_def)
  have c: "x \<in> set (orders w) \<or> fee_bps x \<le> 10000"
    if "x \<in> set (orders (snd (save env w batch relay)))" for x
    using save_new_rows_pushed [OF that] a by blast
  have A: "handleOrder env db info = Pushed row r a
      \<longrightarrow> 0 \<le> fee_bps row \<and> fee_bps row \<le> 10000
          \<and> fee_bps row = getFeeAmount (raw_data row) * 10000 div price row"
    using a by blast
  have B: "priceAndValue p = Some (pr, v) \<and> pr \<noteq> 0 \<and> 10000 < getFeeAmount p * 10000 div pr
      \<longrightarrow> priceAndPush env md p i k fs ap ts sh
            = Returned \<lparr>id_res = i, status = ''fees-too-high''\<rparr>
          \<and> orderValuesOf (priceAndPush env md p i k fs ap ts sh) = []"
    using b by simp
  have C: "\<forall>x \<in> set (orders (snd (save env w batch relay))).
         x \<in> set (orders w) \<or> fee_bps x \<le> 10000"
    using c by blast
  from A B C show ?thesis by blast
qed

theorem fee_bps_bounded_witness:
  "fee_bps exSellRow = 909
   \<and> priceAndPush exEnv exMetadata exSell1155HighFee ''0xid'' ''erc1155'' ''fillable'' ''approved''
        ''token:0xnft1155:1'' ''0xschema''
       = Returned \<lparr>id_res = ''0xid'', status = ''fees-too-high''\<rparr>
   \<and> orders (snd (save exEnv exWorld [exInfo exSell] False)) = [exSellRow]
   \<and> fee_bps exSellRow \<le> 10000"
proof -
  have pv: "priceAndValue exSell1155HighFee = Some (5, 5)
      \<and> 5 \<noteq> (0::nat) \<and> 10000 < getFeeAmount exSell1155HighFee * 10000 div 5"
    by (simp add: priceAndValue_def exSell1155HighFee_def exSell1155_def getFeeAmount_def
        kindStartsWithErc1155_def bn_div_def)
  have w: "orders exWorld = []" by (simp add: exWorld_def)
  from fee_bps_bounded [of exEnv "[]" "exInfo exSell" exSellRow
      "\<lparr>id_res = ''0xmaker/7/0xnft721/1'', status = ''success''\<rparr>"
      "\<lparr>order_ar = exSell, schemaHash_ar = ''0xschema'', source_ar = Some ''0xexchange''\<rparr>"
      exSell1155HighFee 5 5 exMetadata "''0xid''" "''erc1155''" "''fillable''" "''approved''"
      "''token:0xnft1155:1''" "''0xschema''" exWorld "[exInfo exSell]" False]
    ex_handle_sell pv w
  show ?thesis by (simp add: ex_save_sell) (simp add: exSellRow_def)
qed

text \<open>
  C4 (price and value). At the pricing stage the price is \<open>erc20TokenAmount + feeAmount\<close>
  and the value is the price, less the fee amount on the buy side; when the order kind
  starts with \<open>erc1155\<close> both are divided by the unit quantity \<open>q\<close>, rounding down. The
  row of an accepted order holds these numbers: for a single-token 1155 order the price
  \<open>(erc20TokenAmount + feeAmount) div q\<close> and the value divided by \<open>q\<close> likewise, for a
  single-token 721 order the undivided ones; no other kind is accepted.
\<close>

theorem price_and_value_per_unit:
  "(\<not> kindStartsWithErc1155 p
      \<longrightarrow> priceAndValue p
            = Some (erc20TokenAmount p + getFeeAmount p,
                    if direction p = BUY
                    then (erc20TokenAmount p + getFeeAmount p) - getFeeAmount p
                    else erc20TokenAmount p + getFeeAmount p))
   \<and> (kindStartsWithErc1155 p \<and> nftAmount p = Some q \<and> 0 < q
      \<longrightarrow> priceAndValue p
            = Some ((erc20TokenAmount p + getFeeAmount p) div q,
                    (if direction p = BUY
                     then (erc20TokenAmount p + getFeeAmount p) - getFeeAmount p
                     else erc20TokenAmount p + getFeeAmount p) div q))
   \<and> (handleOrder env db info = Pushed row r a
      \<longrightarrow> (let od = raw_data row;
                price0 = erc20TokenAmount od + getFeeAmount od;
                value0 = (if direction od = BUY then price0 - getFeeAmount od else price0)
            in Order_new env (orderParams info) = Some od
               \<and> (direction od = BUY \<longrightarrow> value0 = erc20TokenAmount od)
               \<and> (kind od = Some ''erc1155-single-token'' \<or> kind od = Some ''erc721-single-token'')
               \<and> (kind od = Some ''erc1155-single-token''
                    \<longrightarrow> (\<exists>n. nftAmount od = Some n \<and> 0 < n
                              \<and> price row = price0 div n \<and> value_col row = value0 div n))
               \<and> (kind od = Some ''erc721-single-token''
                    \<longrightarrow> price row = price0 \<and> value_col row = value0)))"
proof -
  have A: "\<not> kindStartsWithErc1155 p
      \<longrightarrow> priceAndValue p
            = Some (erc20TokenAmount p + getFeeAmount p,
                    if direction p = BUY
                    then (erc20TokenAmount p + getFeeAmount p) - getFeeAmount p
                    else erc20TokenAmount p + getFeeAmount p)"
    by (simp add: priceAndValue_def Let_def)
  have B: "kindStartsWithErc1155 p \<and> nftAmount p = Some q \<and> 0 < q
      \<longrightarrow> priceAndValue p
            = Some ((erc20TokenAmount p + getFeeAmount p) div q,
                    (if direction p = BUY
                     then (erc20TokenAmount p + getFeeAmount p) - getFeeAmount p
                     else erc20TokenAmount p + getFeeAmount p) div q)"
    by (simp add: priceAndValue_def Let_def bn_div_def)
  have C: "let od = raw_data row;
                price0 = erc20TokenAmount od + getFeeAmount od;
                value0 = (if direction od = BUY then price0 - getFeeAmount od else price0)
            in Order_new env (orderParams info) = Some od
               \<and> (direction od = BUY \<longrightarrow> value0 = erc20TokenAmount od)
               \<and> (kind od = Some ''erc1155-single-token'' \<or> kind od = Some ''erc721-single-token'')
               \<and> (kind od = Some ''erc1155-single-token''
                    \<longrightarrow> (\<exists>n. nftAmount od = Some n \<and> 0 < n
                              \<and> price row = price0 div n \<and> value_col row = value0 div n))
               \<and> (kind od = Some ''erc721-single-token''
                    \<longrightarrow> price row = price0 \<and> value_col row = value0)"
    if pu: "handleOrder env db info = Pushed row r a"
  proof -
    note h = handleOrder_Pushed_pricing [OF pu]
    have k1155: "\<exists>n. nftAmount (raw_data row) = Some n \<and> 0 < n
          \<and> price row = (erc20TokenAmount (raw_data row) + getFeeAmount (raw_data row)) div n
          \<and> value_col row
              = (if direction (raw_data row) = BUY
                 then (erc20TokenAmount (raw_data row) + getFeeAmount (raw_data row))
                        - getFeeAmount (raw_data row)
                 else erc20TokenAmount (raw_data row) + getFeeAmount (raw_data row)) div n"
      if "kind (raw_data row) = Some ''erc1155-single-token''"
      using h(3) that
      by (auto simp: priceAndValue_def kindStartsWithErc1155_def bn_div_def Let_def
          split: option.splits if_splits)
    have k721: "price row = erc20TokenAmount (raw_data row) + getFeeAmount (raw_data row)
          \<and> value_col row
              = (if direction (raw_data row) = BUY
                 then (erc20TokenAmount (raw_data row) + getFeeAmount (raw_data row))
                        - getFeeAmount (raw_data row)
                 else erc20TokenAmount (raw_data row) + getFeeAmount (raw_data row))"
      if "kind (raw_data row) = Some ''erc721-single-token''"
      using h(3) that
      by (auto simp: priceAndValue_def kindStartsWithErc1155_def Let_def split: if_splits)
    from h(1,2) k1155 k721 show ?thesis by (auto simp: Let_def)
  qed
  from A B C show ?thesis by blast
qed

theorem price_and_value_per_unit_witness:
  "handleOrder exEnv [] (exInfo exSell1155)
     = Pushed exSell1155Row \<lparr>id_res = ''0xmaker/8/0xnft1155/1'', status = ''success''\<rparr>
         \<lparr>order_ar = exSell1155, schemaHash_ar = ''0xschema'', source_ar = Some ''0xexchange''\<rparr>
   \<and> kind exSell1155 = Some ''erc1155-single-token''
   \<and> nftAmount exSell1155 = Some 3
   \<and> price exSell1155Row = (301 + 30) div 3
   \<and> value_col exSell1155Row = (301 + 30) div 3
   \<and> priceAndValue exSell1155 = Some (110, 110)
   \<and> priceAndValue exSell = Some (110, 110)"
proof -
  have k: "kindStartsWithErc1155 exSell1155 \<and> nftAmount exSell1155 = Some 3 \<and> (0::nat) < 3"
    by (simp add: kindStartsWithErc1155_def exSell1155_def)
  have k': "\<not> kindStartsWithErc1155 exSell"
    by (simp add: kindStartsWithErc1155_def exSell_def)
  have f: "getFeeAmount exSell1155 = 30" "erc20TokenAmount exSell1155 = 301"
    "direction exSell1155 = SELL" "kind exSell1155 = Some ''erc1155-single-token''"
    "getFeeAmount exSell = 10" "erc20TokenAmount exSell = 100" "direction exSell = SELL"
    by (simp_all add: getFeeAmount_def exSell1155_def exSell_def)
  have rw: "raw_data exSell1155Row = exSell1155" "price exSell1155Row = 110"
    "value_col exSell1155Row = 110"
    by (simp_all add: exSell1155Row_def)
  from price_and_value_per_unit [of exSell1155 3 exEnv "[]" "exInfo exSell1155" exSell1155Row
      "\<lparr>id_res = ''0xmaker/8/0xnft1155/1'', status = ''success''\<rparr>"
      "\<lparr>order_ar = exSell1155, schemaHash_ar = ''0xschema'', source_ar = Some ''0xexchange''\<rparr>"]
    price_and_value_per_unit [of exSell 1 exEnv "[]" "exInfo exSell1155" exSell1155Row
      "\<lparr>id_res = ''0xmaker/8/0xnft1155/1'', status = ''success''\<rparr>"
      "\<lparr>order_ar = exSell1155, schemaHash_ar = ''0xschema'', source_ar = Some ''0xexchange''\<rparr>"]
    ex_handle_1155 k k' f rw
  show ?thesis by (simp add: Let_def)
qed

text \<open>
  C5 (price zero), as stated, fails at the sell order \<open>exSellZeroPrice\<close>, whose price
  is zero and which passes every check before the pricing stage: the division throws,
  \<open>handleOrder\<close> pushes nothing, and \<open>save\<close> returns no outcome for the order.
\<close>

theorem zero_price_no_status:
  "erc20TokenAmount exSellZeroPrice + getFeeAmount exSellZeroPrice = 0
   \<and> handleOrder exEnv [] (exInfo exSellZeroPrice) = Thrown
   \<and> save exEnv exWorld [exInfo exSellZeroPrice] False = ([], exWorld)"
proof -
  have w: "orders exWorld = []" by (simp add: exWorld_def)
  have "erc20TokenAmount exSellZeroPrice + getFeeAmount exSellZeroPrice = 0"
    by (simp add: exSellZeroPrice_def getFeeAmount_def)
  moreover have "save exEnv exWorld [exInfo exSellZeroPrice] False = ([], exWorld)"
    by (simp add: save_def Let_def w ex_handle_zero_price)
  ultimately show ?thesis using ex_handle_zero_price by simp
qed

text \<open>
  C5, amended. For an order whose price \<open>erc20TokenAmount + feeAmount\<close> is zero, the
  pricing stage throws: there is no guard, and the division error is caught by the
  catch block of \<open>handleOrder\<close>. Such an order is never accepted and never gets
  \<open>fees-too-high\<close>: it leaves \<open>handleOrder\<close> with the status of an earlier check, or
  with no outcome at all.
\<close>

theorem zero_price_dropped:
  assumes "erc20TokenAmount p + getFeeAmount p = 0"
  shows "priceAndPush env md p i k fs ap ts sh = Thrown
       \<and> (Order_new env (orderParams info) = Some p
            \<longrightarrow> handleOrder env db info = Thrown
                \<or> (\<exists>x. handleOrder env db info = Returned x
                         \<and> status x \<in> {''already-exists'', ''unknown-order-kind'',
                               ''duplicated-nonce'', ''expired'', ''unsupported-payment-token'',
                               ''unsupported-taker'', ''invalid'', ''invalid-signature'',
                               ''not-fillable'', ''invalid-token-set''}))"
proof -
  from assms have z: "erc20TokenAmount p = 0" "getFeeAmount p = 0" by simp_all
  have pv: "priceAndValue p = None \<or> priceAndValue p = Some (0, 0)"
    by (simp add: priceAndValue_def z Let_def bn_div_def split: option.split)
  then have pp: "priceAndPush env md p i k fs ap ts sh = Thrown" for env md i k fs ap ts sh
    by (auto simp: priceAndPush_def Let_def bn_div_def)
  have cf: "checkFillabilityAndTokenSet env md p i k = Thrown
      \<or> checkFillabilityAndTokenSet env md p i k = Returned \<lparr>id_res = i, status = ''not-fillable''\<rparr>
      \<or> checkFillabilityAndTokenSet env md p i k = Returned \<lparr>id_res = i, status = ''invalid-token-set''\<rparr>"
    for md i k
    by (simp add: checkFillabilityAndTokenSet_def pp Let_def split: option.split sum.split prod.split)
  have "handleOrder env db info = Thrown
                \<or> (\<exists>x. handleOrder env db info = Returned x
                         \<and> status x \<in> {''already-exists'', ''unknown-order-kind'',
                               ''duplicated-nonce'', ''expired'', ''unsupported-payment-token'',
                               ''unsupported-taker'', ''invalid'', ''invalid-signature'',
                               ''not-fillable'', ''invalid-token-set''})"
    if o: "Order_new env (orderParams info) = Some p"
  proof (cases "Order_hash env p")
    case None
    with o show ?thesis by (simp add: handleOrder_def)
  next
    case (Some j)
    show ?thesis
    proof (cases "getContractKind env (nft p)")
      case None
      with o Some show ?thesis by (simp add: handleOrder_def)
    next
      case (Some c)
      note kd = Some
      show ?thesis
      proof (cases "nonceExists env db c p")
        case None
        with o \<open>Order_hash env p = Some j\<close> kd show ?thesis
          by (simp add: handleOrder_def)
      next
        case (Some e)
        have h: "handleOrder env db info
            = (if orderExists db j
               then Returned \<lparr>id_res = j, status = ''already-exists''\<rparr>
               else if c = []
               then Returned \<lparr>id_res = j, status = ''unknown-order-kind''\<rparr>
               else if e
               then Returned \<lparr>id_res = j, status = ''duplicated-nonce''\<rparr>
               else if currentTime env \<ge> expiry p
               then Returned \<lparr>id_res = j, status = ''expired''\<rparr>
               else if direction p = BUY \<and> Some (erc20Token p) \<noteq> Weth env
               then Returned \<lparr>id_res = j, status = ''unsupported-payment-token''\<rparr>
               else if direction p = BUY \<and> Some (erc20Token p) \<noteq> Eth env
               then Returned \<lparr>id_res = j, status = ''unsupported-payment-token''\<rparr>
               else if taker p \<noteq> AddressZero
               then Returned \<lparr>id_res = j, status = ''unsupported-taker''\<rparr>
               else if \<not> checkValidity env p
               then Returned \<lparr>id_res = j, status = ''invalid''\<rparr>
               else if \<not> checkSignature env p
               then Returned \<lparr>id_res = j, status = ''invalid-signature''\<rparr>
               else checkFillabilityAndTokenSet env (metadata info) p j c)"
          using o \<open>Order_hash env p = Some j\<close> kd Some by (simp add: handleOrder_def)
        from cf [of "metadata info" j c] show ?thesis
          unfolding h by (auto split: if_splits)
      qed
    qed
  qed
  with pp show ?thesis by blast
qed

theorem zero_price_dropped_witness:
  "erc20TokenAmount exSellZeroPrice + getFeeAmount exSellZeroPrice = 0
   \<and> Order_new exEnv (orderParams (exInfo exSellZeroPrice)) = Some exSellZeroPrice
   \<and> priceAndPush exEnv exMetadata exSellZeroPrice ''0xid'' ''erc721'' ''fillable'' ''approved''
        ''token:0xnft721:1'' ''0xschema'' = Thrown
   \<and> handleOrder exEnv [] (exInfo exSellZeroPrice) = Thrown"
proof -
  have z: "erc20TokenAmount exSellZeroPrice + getFeeAmount exSellZeroPrice = 0"
    by (simp add: exSellZeroPrice_def getFeeAmount_def)
  have o: "Order_new exEnv (orderParams (exInfo exSellZeroPrice)) = Some exSellZeroPrice"
    by (simp add: exEnv_def exInfo_def)
  from zero_price_dropped [OF z, of exEnv exMetadata "''0xid''" "''erc721''" "''fillable''"
      "''approved''" "''token:0xnft721:1''" "''0xschema''" "exInfo exSellZeroPrice" "[]"]
    z o ex_handle_zero_price
  show ?thesis by simp
qed

subsection \<open>Nonce uniqueness\<close>

lemma nonce_guard:
  assumes "Order_new env (orderParams info) = Some p" and "Order_hash env p = Some i"
    and "\<not> orderExists db i" and "getContractKind env (nft p) = Some k" and "k \<noteq> []"
  shows "(handleOrder env db info = Returned \<lparr>id_res = i, status = ''duplicated-nonce''\<rparr>
            \<longleftrightarrow> nonceExists env db k p = Some True)
       \<and> (nonceExists env db k p = None \<longrightarrow> handleOrder env db info = Thrown)"
proof -
  have nd: "checkFillabilityAndTokenSet env (metadata info) p i k
          \<noteq> Returned \<lparr>id_res = i, status = ''duplicated-nonce''\<rparr>"
    using checkFillabilityAndTokenSet_Returned
      [of env "metadata info" p i k "\<lparr>id_res = i, status = ''duplicated-nonce''\<rparr>"]
    by auto
  show ?thesis
  proof (cases "nonceExists env db k p")
    case None
    with assms show ?thesis by (simp add: handleOrder_def)
  next
    case (Some e)
    with assms nd show ?thesis by (auto simp: handleOrder_def split: if_splits)
  qed
qed

lemma duplicated_nonce_erc1155:
  assumes "Order_new env (orderParams info) = Some p" and "Order_hash env p = Some i"
    and "\<not> orderExists db i" and "getContractKind env (nft p) = Some ''erc1155''"
    and "filter (\<lambda>r. order_kind env r = Some ''opendao-erc1155''
                     \<and> maker_col r = maker p \<and> nonce_col r = nonce p) db = [x]"
  shows "handleOrder env db info = Returned \<lparr>id_res = i, status = ''duplicated-nonce''\<rparr>"
proof -
  from assms(5) have "nonceExists env db ''erc1155'' p = Some True"
    by (simp add: nonceExists_def oneOrNone_def)
  with nonce_guard [OF assms(1-4)] show ?thesis by simp
qed

lemma nonce_query_rejects_erc1155:
  assumes "Order_new env (orderParams info) = Some p" and "Order_hash env p = Some i"
    and "\<not> orderExists db i" and "getContractKind env (nft p) = Some ''erc1155''"
    and "filter (\<lambda>r. order_kind env r = Some ''opendao-erc1155''
                     \<and> maker_col r = maker p \<and> nonce_col r = nonce p) db = x # y # zs"
  shows "handleOrder env db info = Thrown"
proof -
  from assms(5) have "nonceExists env db ''erc1155'' p = None"
    by (simp add: nonceExists_def oneOrNone_def)
  with nonce_guard [OF assms(1-4)] show ?thesis by simp
qed

text \<open>
  C6 (nonce uniqueness of non-divisible orders). The table holds the row of the sell
  order \<open>exSell\<close>, of kind \<open>opendao-erc721\<close>. The sell order \<open>exSellSameNonce\<close> has the
  same maker, nonce and contract, the same amount and the same fee, hence the same
  price. It is accepted with \<open>success\<close>, not rejected with \<open>duplicated-nonce\<close>, and the
  table then holds two rows: the query compares the \<open>price\<close> column, which includes the
  fee, with the \<open>erc20TokenAmount\<close> of the new order, which does not.
\<close>

theorem same_nonce_and_price_accepted:
  "orders (snd (save exEnv exWorld [exInfo exSell] False)) = [exSellRow]
   \<and> kind_col exSellRow = ''opendao-erc721''
   \<and> getContractKind exEnv (nft exSellSameNonce) = Some ''erc721''
   \<and> maker_col exSellRow = maker exSellSameNonce
   \<and> nonce_col exSellRow = nonce exSellSameNonce
   \<and> contract exSellRow = nft exSellSameNonce
   \<and> erc20TokenAmount (raw_data exSellRow) = erc20TokenAmount exSellSameNonce
   \<and> price exSellRow = erc20TokenAmount exSellSameNonce + getFeeAmount exSellSameNonce
   \<and> map status (fst (save exEnv \<lparr>orders = [exSellRow], effects = []\<rparr>
                        [exInfo exSellSameNonce] False)) = [''success'']
   \<and> length (orders (snd (save exEnv \<lparr>orders = [exSellRow], effects = []\<rparr>
                             [exInfo exSellSameNonce] False))) = 2"
proof -
  have a: "orders (snd (save exEnv exWorld [exInfo exSell] False)) = [exSellRow]"
    by (simp add: ex_save_sell)
  have b: "kind_col exSellRow = ''opendao-erc721''"
    "getContractKind exEnv (nft exSellSameNonce) = Some ''erc721''"
    "maker_col exSellRow = maker exSellSameNonce"
    "nonce_col exSellRow = nonce exSellSameNonce"
    "contract exSellRow = nft exSellSameNonce"
    "erc20TokenAmount (raw_data exSellRow) = erc20TokenAmount exSellSameNonce"
    "price exSellRow = erc20TokenAmount exSellSameNonce + getFeeAmount exSellSameNonce"
    by (simp_all add: ex_defs getFeeAmount_def)
  have c: "map status (fst (save exEnv \<lparr>orders = [exSellRow], effects = []\<rparr>
                        [exInfo exSellSameNonce] False)) = [''success'']"
    by (simp add: save_results ex_handle_same_nonce)
  have d: "length (orders (snd (save exEnv \<lparr>orders = [exSellRow], effects = []\<rparr>
                             [exInfo exSellSameNonce] False))) = 2"
  proof -
    have i: "id_col exSellRow = ''0xmaker/7/0xnft721/1''" by (simp add: exSellRow_def)
    show ?thesis
      by (simp add: save_orders ex_handle_same_nonce insertOnConflictDoNothing_def
          orderExists_def i)
  qed
  from a b c d show ?thesis by simp
qed

subsection \<open>Fillability\<close>

text \<open>
  C7 (recoverable fillability states). The three messages \<open>no-balance-no-approval\<close>,
  \<open>no-approval\<close> and \<open>no-balance\<close> of the fillability check map to the flags
  (no-balance, no-approval), (fillable, no-approval) and (no-balance, approved); any
  other message maps to none. An order that is accepted when its check passes is
  accepted when its check fails with one of the three, with the same row but for the
  two flags, which are those of the message; an accepted order is persisted by \<open>save\<close>
  with its row, and the row of every accepted order carries the flags of its check. At
  the stage itself, an order with flags goes on to the token set and the pricing with
  these flags, and is not rejected as \<open>not-fillable\<close>. An order whose check fails with
  any other message gets \<open>not-fillable\<close> at that stage, and is never accepted.
\<close>

theorem fillability_substates:
  "fillability (Some ''no-balance-no-approval'') = Some (''no-balance'', ''no-approval'')
   \<and> fillability (Some ''no-approval'') = Some (''fillable'', ''no-approval'')
   \<and> fillability (Some ''no-balance'') = Some (''no-balance'', ''approved'')
   \<and> (m \<notin> {''no-balance-no-approval'', ''no-approval'', ''no-balance''}
        \<longrightarrow> fillability (Some m) = None)
   \<and> (handleOrder (env\<lparr>offChainCheck := f\<rparr>) db info = Pushed row r a
        \<and> offChainCheck env (raw_data row) = Some m
        \<and> m \<in> {''no-balance-no-approval'', ''no-approval'', ''no-balance''}
        \<longrightarrow> handleOrder env db info
              = Pushed (row\<lparr>fillability_status := fst (the (fillability (Some m))),
                            approval_status := snd (the (fillability (Some m)))\<rparr>) r a)
   \<and> (handleOrder env (orders w) info = Pushed row r a
        \<longrightarrow> orders (snd (save env w [info] relay)) = orders w @ [row]
            \<and> map status (fst (save env w [info] relay)) = [''success''])
   \<and> (handleOrder env db info = Pushed row r a
        \<longrightarrow> fillability (offChainCheck env (raw_data row))
              = Some (fillability_status row, approval_status row))
   \<and> (fillability (offChainCheck env p) = Some (fs, ap)
        \<longrightarrow> checkFillabilityAndTokenSet env md p i k
              = (case resolveTokenSet env p
                        (case schemaHash md of
                           Some h \<Rightarrow> h
                         | None \<Rightarrow> generateSchemaHash env (schema md)) of
                   Inl u \<Rightarrow> Thrown
                 | Inr None \<Rightarrow> Returned \<lparr>id_res = i, status = ''invalid-token-set''\<rparr>
                 | Inr (Some ts) \<Rightarrow>
                     if ts = []
                     then Returned \<lparr>id_res = i, status = ''invalid-token-set''\<rparr>
                     else priceAndPush env md p i k fs ap ts
                            (case schemaHash md of
                               Some h \<Rightarrow> h
                             | None \<Rightarrow> generateSchemaHash env (schema md))))
   \<and> (offChainCheck env p = Some m
        \<and> m \<in> {''no-balance-no-approval'', ''no-approval'', ''no-balance''}
        \<longrightarrow> checkFillabilityAndTokenSet env md p i k
              \<noteq> Returned \<lparr>id_res = i, status = ''not-fillable''\<rparr>)
   \<and> (offChainCheck env p = Some m
        \<and> m \<notin> {''no-balance-no-approval'', ''no-approval'', ''no-balance''}
        \<longrightarrow> checkFillabilityAndTokenSet env md p i k
              = Returned \<lparr>id_res = i, status = ''not-fillable''\<rparr>
            \<and> (Order_new env (orderParams info) = Some p
                 \<longrightarrow> orderValuesOf (handleOrder env db info) = []))"
proof -
  have A: "fillability (Some ''no-balance-no-approval'') = Some (''no-balance'', ''no-approval'')"
    "fillability (Some ''no-approval'') = Some (''fillable'', ''no-approval'')"
    "fillability (Some ''no-balance'') = Some (''no-balance'', ''approved'')"
    by (simp_all add: fillability_def)
  have B: "m \<notin> {''no-balance-no-approval'', ''no-approval'', ''no-balance''}
        \<longrightarrow> fillability (Some m) = None"
    by (simp add: fillability_def)
  have P: "handleOrder (env\<lparr>offChainCheck := f\<rparr>) db info = Pushed row r a
        \<and> offChainCheck env (raw_data row) = Some m
        \<and> m \<in> {''no-balance-no-approval'', ''no-approval'', ''no-balance''}
        \<longrightarrow> handleOrder env db info
              = Pushed (row\<lparr>fillability_status := fst (the (fillability (Some m))),
                            approval_status := snd (the (fillability (Some m)))\<rparr>) r a"
  proof (intro impI, elim conjE)
    assume pu: "handleOrder (env\<lparr>offChainCheck := f\<rparr>) db info = Pushed row r a"
      and m: "offChainCheck env (raw_data row) = Some m"
        "m \<in> {''no-balance-no-approval'', ''no-approval'', ''no-balance''}"
    from m(2) A obtain x y where xy: "fillability (Some m) = Some (x, y)" by auto
    with m(1) have "fillability (offChainCheck env (raw_data row)) = Some (x, y)" by simp
    from handleOrder_flags [OF pu this] xy
    show "handleOrder env db info
              = Pushed (row\<lparr>fillability_status := fst (the (fillability (Some m))),
                            approval_status := snd (the (fillability (Some m)))\<rparr>) r a"
      by simp
  qed
  have W: "handleOrder env (orders w) info = Pushed row r a
        \<longrightarrow> orders (snd (save env w [info] relay)) = orders w @ [row]
            \<and> map status (fst (save env w [info] relay)) = [''success'']"
    using save_one_pushed [of env w info row r a relay] by blast
  have pushed: "fillability (offChainCheck env (raw_data row))
              = Some (fillability_status row, approval_status row)
            \<and> Order_new env (orderParams info) = Some (raw_data row)"
    if pu: "handleOrder env db info = Pushed row r a" for row r a
  proof -
    from handleOrder_Pushed [OF pu] obtain q c where
      q: "Order_new env (orderParams info) = Some q"
      and cf: "checkFillabilityAndTokenSet env (metadata info) q (id_col row) c = Pushed row r a"
      by blast
    from checkFillabilityAndTokenSet_Pushed [OF cf] obtain ts sh where
      f: "fillability (offChainCheck env q) = Some (fillability_status row, approval_status row)"
      and pp: "priceAndPush env (metadata info) q (id_col row) c (fillability_status row)
                 (approval_status row) ts sh = Pushed row r a"
      by blast
    from priceAndPush_Pushed(6) [OF pp] q f show ?thesis by simp
  qed
  then have C: "handleOrder env db info = Pushed row r a
        \<longrightarrow> fillability (offChainCheck env (raw_data row))
              = Some (fillability_status row, approval_status row)"
    by blast
  have S: "fillability (offChainCheck env p) = Some (fs, ap)
        \<longrightarrow> checkFillabilityAndTokenSet env md p i k
              = (case resolveTokenSet env p
                        (case schemaHash md of
                           Some h \<Rightarrow> h
                         | None \<Rightarrow> generateSchemaHash env (schema md)) of
                   Inl u \<Rightarrow> Thrown
                 | Inr None \<Rightarrow> Returned \<lparr>id_res = i, status = ''invalid-token-set''\<rparr>
                 | Inr (Some ts) \<Rightarrow>
                     if ts = []
                     then Returned \<lparr>id_res = i, status = ''invalid-token-set''\<rparr>
                     else priceAndPush env md p i k fs ap ts
                            (case schemaHash md of
                               Some h \<Rightarrow> h
                             | None \<Rightarrow> generateSchemaHash env (schema md)))"
    using checkFillabilityAndTokenSet_stage [of env p fs ap md i k] by blast
  have D: "offChainCheck env p = Some m
        \<and> m \<in> {''no-balance-no-approval'', ''no-approval'', ''no-balance''}
        \<longrightarrow> checkFillabilityAndTokenSet env md p i k
              \<noteq> Returned \<lparr>id_res = i, status = ''not-fillable''\<rparr>"
  proof (intro impI, elim conjE)
    assume m: "offChainCheck env p = Some m"
      "m \<in> {''no-balance-no-approval'', ''no-approval'', ''no-balance''}"
    then obtain x y where f: "fillability (offChainCheck env p) = Some (x, y)"
      using A by auto
    have "priceAndPush env md p i k x y ts sh \<noteq> Returned \<lparr>id_res = i, status = ''not-fillable''\<rparr>"
      for ts sh
      using priceAndPush_cases [of env md p i k x y ts sh] by auto
    with f show "checkFillabilityAndTokenSet env md p i k
              \<noteq> Returned \<lparr>id_res = i, status = ''not-fillable''\<rparr>"
      by (simp add: checkFillabilityAndTokenSet_def Let_def split: sum.split option.split)
  qed
  have E: "offChainCheck env p = Some m
        \<and> m \<notin> {''no-balance-no-approval'', ''no-approval'', ''no-balance''}
        \<longrightarrow> checkFillabilityAndTokenSet env md p i k
              = Returned \<lparr>id_res = i, status = ''not-fillable''\<rparr>
            \<and> (Order_new env (orderParams info) = Some p
                 \<longrightarrow> orderValuesOf (handleOrder env db info) = [])"
  proof (intro impI, elim conjE)
    assume m: "offChainCheck env p = Some m"
      "m \<notin> {''no-balance-no-approval'', ''no-approval'', ''no-balance''}"
    with B have f: "fillability (offChainCheck env p) = None" by simp
    then have 1: "checkFillabilityAndTokenSet env md p i k
              = Returned \<lparr>id_res = i, status = ''not-fillable''\<rparr>"
      by (simp add: checkFillabilityAndTokenSet_def)
    have 2: "orderValuesOf (handleOrder env db info) = []"
      if o: "Order_new env (orderParams info) = Some p"
    proof -
      have "handleOrder env db info \<noteq> Pushed row r a" for row r a
        using pushed [of row r a] o f by auto
      then show ?thesis by (simp add: orderValuesOf_empty)
    qed
    from 1 2 show "checkFillabilityAndTokenSet env md p i k
              = Returned \<lparr>id_res = i, status = ''not-fillable''\<rparr>
            \<and> (Order_new env (orderParams info) = Some p
                 \<longrightarrow> orderValuesOf (handleOrder env db info) = [])"
      by blast
  qed
  from A B P W C S D E show ?thesis by (intro conjI) assumption+
qed

theorem fillability_substates_witness:
  "handleOrder exEnv [] (exInfo exSellNoBalanceNoApproval)
     = Pushed (exSellRow\<lparr>id_col := ''0xmaker/7/0xnft721/5'', token_set_id := ''token:0xnft721:5'',
                        raw_data := exSellNoBalanceNoApproval,
                        fillability_status := ''no-balance'', approval_status := ''no-approval''\<rparr>)
         \<lparr>id_res = ''0xmaker/7/0xnft721/5'', status = ''success''\<rparr>
         \<lparr>order_ar = exSellNoBalanceNoApproval, schemaHash_ar = ''0xschema'',
          source_ar = Some ''0xexchange''\<rparr>
   \<and> handleOrder exEnv [] (exInfo exSellNoApproval)
     = Pushed (exSellRow\<lparr>id_col := ''0xmaker/7/0xnft721/4'', token_set_id := ''token:0xnft721:4'',
                        raw_data := exSellNoApproval,
                        fillability_status := ''fillable'', approval_status := ''no-approval''\<rparr>)
         \<lparr>id_res = ''0xmaker/7/0xnft721/4'', status = ''success''\<rparr>
         \<lparr>order_ar = exSellNoApproval, schemaHash_ar = ''0xschema'',
          source_ar = Some ''0xexchange''\<rparr>
   \<and> handleOrder exEnv [] (exInfo exSellNoBalance)
     = Pushed (exSellRow\<lparr>id_col := ''0xmaker/7/0xnft721/3'', token_set_id := ''token:0xnft721:3'',
                        raw_data := exSellNoBalance,
                        fillability_status := ''no-balance'', approval_status := ''approved''\<rparr>)
         \<lparr>id_res = ''0xmaker/7/0xnft721/3'', status = ''success''\<rparr>
         \<lparr>order_ar = exSellNoBalance, schemaHash_ar = ''0xschema'',
          source_ar = Some ''0xexchange''\<rparr>
   \<and> orders (snd (save exEnv exWorld [exInfo exSellNoApproval] False))
     = [exSellRow\<lparr>id_col := ''0xmaker/7/0xnft721/4'', token_set_id := ''token:0xnft721:4'',
                   raw_data := exSellNoApproval,
                   fillability_status := ''fillable'', approval_status := ''no-approval''\<rparr>]
   \<and> map status (fst (save exEnv exWorld [exInfo exSellNoApproval] False)) = [''success'']
   \<and> checkFillabilityAndTokenSet exEnv exMetadata exSellFilled ''0xid'' ''erc721''
       = Returned \<lparr>id_res = ''0xid'', status = ''not-fillable''\<rparr>
   \<and> orderValuesOf (handleOrder exEnv [] (exInfo exSellFilled)) = []"
proof -
  have w: "orders exWorld = []" by (simp add: exWorld_def)
  have c: "offChainCheck exEnv exSellNoBalanceNoApproval = Some ''no-balance-no-approval''"
    "offChainCheck exEnv exSellNoApproval = Some ''no-approval''"
    "offChainCheck exEnv exSellNoBalance = Some ''no-balance''"
    "offChainCheck exEnv exSellFilled = Some ''filled''"
    "''filled'' \<notin> {''no-balance-no-approval'', ''no-approval'', ''no-balance''}"
    "Order_new exEnv (orderParams (exInfo exSellFilled)) = Some exSellFilled"
    by (simp_all add: exEnv_def exSellNoBalance_def exSellNoApproval_def
        exSellNoBalanceNoApproval_def exSellFilled_def exSell_def exInfo_def)
  have fl: "fillability (Some ''no-balance-no-approval'') = Some (''no-balance'', ''no-approval'')"
    "fillability (Some ''no-approval'') = Some (''fillable'', ''no-approval'')"
    "fillability (Some ''no-balance'') = Some (''no-balance'', ''approved'')"
    by (simp_all add: fillability_def)
  note t5 = fillability_substates [where m = "''no-balance-no-approval''" and env = exEnv and f = "\<lambda>p. None"
      and db = "[]" and info = "exInfo exSellNoBalanceNoApproval"
      and row = "exSellRow\<lparr>id_col := ''0xmaker/7/0xnft721/5'',
                   token_set_id := ''token:0xnft721:5'', raw_data := exSellNoBalanceNoApproval\<rparr>"
      and r = "\<lparr>id_res = ''0xmaker/7/0xnft721/5'', status = ''success''\<rparr>"
      and a = "\<lparr>order_ar = exSellNoBalanceNoApproval, schemaHash_ar = ''0xschema'',
               source_ar = Some ''0xexchange''\<rparr>"
      and w = exWorld and relay = False and p = exSellFilled and fs = "''fillable''"
      and ap = "''approved''" and md = exMetadata and i = "''0xid''" and k = "''erc721''"]
  note t4 = fillability_substates [where m = "''no-approval''" and env = exEnv and f = "\<lambda>p. None"
      and db = "[]" and info = "exInfo exSellNoApproval"
      and row = "exSellRow\<lparr>id_col := ''0xmaker/7/0xnft721/4'',
                   token_set_id := ''token:0xnft721:4'', raw_data := exSellNoApproval\<rparr>"
      and r = "\<lparr>id_res = ''0xmaker/7/0xnft721/4'', status = ''success''\<rparr>"
      and a = "\<lparr>order_ar = exSellNoApproval, schemaHash_ar = ''0xschema'',
               source_ar = Some ''0xexchange''\<rparr>"
      and w = exWorld and relay = False and p = exSellFilled and fs = "''fillable''"
      and ap = "''approved''" and md = exMetadata and i = "''0xid''" and k = "''erc721''"]
  note t3 = fillability_substates [where m = "''no-balance''" and env = exEnv and f = "\<lambda>p. None"
      and db = "[]" and info = "exInfo exSellNoBalance"
      and row = "exSellRow\<lparr>id_col := ''0xmaker/7/0xnft721/3'',
                   token_set_id := ''token:0xnft721:3'', raw_data := exSellNoBalance\<rparr>"
      and r = "\<lparr>id_res = ''0xmaker/7/0xnft721/3'', status = ''success''\<rparr>"
      and a = "\<lparr>order_ar = exSellNoBalance, schemaHash_ar = ''0xschema'',
               source_ar = Some ''0xexchange''\<rparr>"
      and w = exWorld and relay = False and p = exSellFilled and fs = "''fillable''"
      and ap = "''approved''" and md = exMetadata and i = "''0xid''" and k = "''erc721''"]
  note t4w = fillability_substates [where m = "''no-approval''" and env = exEnv and f = "\<lambda>p. None"
      and db = "[]" and info = "exInfo exSellNoApproval"
      and row = "exSellRow\<lparr>id_col := ''0xmaker/7/0xnft721/4'',
                   token_set_id := ''token:0xnft721:4'', raw_data := exSellNoApproval,
                   fillability_status := ''fillable'', approval_status := ''no-approval''\<rparr>"
      and r = "\<lparr>id_res = ''0xmaker/7/0xnft721/4'', status = ''success''\<rparr>"
      and a = "\<lparr>order_ar = exSellNoApproval, schemaHash_ar = ''0xschema'',
               source_ar = Some ''0xexchange''\<rparr>"
      and w = exWorld and relay = False and p = exSellFilled and fs = "''fillable''"
      and ap = "''approved''" and md = exMetadata and i = "''0xid''" and k = "''erc721''"]
  note t6 = fillability_substates [where m = "''filled''" and env = exEnv and f = "\<lambda>p. None"
      and db = "[]" and info = "exInfo exSellFilled"
      and row = "exSellRow\<lparr>id_col := ''0xmaker/7/0xnft721/6'',
                   token_set_id := ''token:0xnft721:6'', raw_data := exSellFilled\<rparr>"
      and r = "\<lparr>id_res = ''0xmaker/7/0xnft721/6'', status = ''success''\<rparr>"
      and a = "\<lparr>order_ar = exSellFilled, schemaHash_ar = ''0xschema'',
               source_ar = Some ''0xexchange''\<rparr>"
      and w = exWorld and relay = False and p = exSellFilled and fs = "''fillable''"
      and ap = "''approved''" and md = exMetadata and i = "''0xid''" and k = "''erc721''"]
  have r5: "handleOrder exEnv [] (exInfo exSellNoBalanceNoApproval)
     = Pushed (exSellRow\<lparr>id_col := ''0xmaker/7/0xnft721/5'', token_set_id := ''token:0xnft721:5'',
                        raw_data := exSellNoBalanceNoApproval,
                        fillability_status := ''no-balance'', approval_status := ''no-approval''\<rparr>)
         \<lparr>id_res = ''0xmaker/7/0xnft721/5'', status = ''success''\<rparr>
         \<lparr>order_ar = exSellNoBalanceNoApproval, schemaHash_ar = ''0xschema'',
          source_ar = Some ''0xexchange''\<rparr>"
    using t5 [THEN conjunct2, THEN conjunct2, THEN conjunct2, THEN conjunct2, THEN conjunct1] ex_handle_no_balance_no_approval_passing c(1) fl(1)
    by simp
  have r4: "handleOrder exEnv [] (exInfo exSellNoApproval)
     = Pushed (exSellRow\<lparr>id_col := ''0xmaker/7/0xnft721/4'', token_set_id := ''token:0xnft721:4'',
                        raw_data := exSellNoApproval,
                        fillability_status := ''fillable'', approval_status := ''no-approval''\<rparr>)
         \<lparr>id_res = ''0xmaker/7/0xnft721/4'', status = ''success''\<rparr>
         \<lparr>order_ar = exSellNoApproval, schemaHash_ar = ''0xschema'',
          source_ar = Some ''0xexchange''\<rparr>"
    using t4 [THEN conjunct2, THEN conjunct2, THEN conjunct2, THEN conjunct2, THEN conjunct1] ex_handle_no_approval_passing c(2) fl(2)
    by simp
  have r3: "handleOrder exEnv [] (exInfo exSellNoBalance)
     = Pushed (exSellRow\<lparr>id_col := ''0xmaker/7/0xnft721/3'', token_set_id := ''token:0xnft721:3'',
                        raw_data := exSellNoBalance,
                        fillability_status := ''no-balance'', approval_status := ''approved''\<rparr>)
         \<lparr>id_res = ''0xmaker/7/0xnft721/3'', status = ''success''\<rparr>
         \<lparr>order_ar = exSellNoBalance, schemaHash_ar = ''0xschema'',
          source_ar = Some ''0xexchange''\<rparr>"
    using t3 [THEN conjunct2, THEN conjunct2, THEN conjunct2, THEN conjunct2, THEN conjunct1] ex_handle_no_balance_passing c(3) fl(3)
    by simp
  have s4: "orders (snd (save exEnv exWorld [exInfo exSellNoApproval] False))
     = [exSellRow\<lparr>id_col := ''0xmaker/7/0xnft721/4'', token_set_id := ''token:0xnft721:4'',
                   raw_data := exSellNoApproval,
                   fillability_status := ''fillable'', approval_status := ''no-approval''\<rparr>]
   \<and> map status (fst (save exEnv exWorld [exInfo exSellNoApproval] False)) = [''success'']"
    using t4w [THEN conjunct2, THEN conjunct2, THEN conjunct2, THEN conjunct2, THEN conjunct2, THEN conjunct1] r4 w
    by simp
  have e6: "checkFillabilityAndTokenSet exEnv exMetadata exSellFilled ''0xid'' ''erc721''
       = Returned \<lparr>id_res = ''0xid'', status = ''not-fillable''\<rparr>
   \<and> orderValuesOf (handleOrder exEnv [] (exInfo exSellFilled)) = []"
    using t6 [THEN conjunct2, THEN conjunct2, THEN conjunct2, THEN conjunct2, THEN conjunct2, THEN conjunct2, THEN conjunct2, THEN conjunct2, THEN conjunct2] c(4,5,6)
    by simp
  from r5 r4 r3 s4 e6 show ?thesis by simp
qed

subsection \<open>The batch\<close>

text \<open>
  C8 (failure isolation). When exactly one order of a batch, the one at position \<open>k\<close>,
  throws in \<open>handleOrder\<close>, \<open>save\<close> returns one outcome for each of the other orders,
  and everything it returns and does is what it returns and does on the batch without
  that order. (\<open>save\<close> returns a value in every case: the exception stays in
  \<open>handleOrder\<close>.)
\<close>

theorem failure_isolated:
  assumes "k < length batch"
    and "handleOrder env (orders w) (batch ! k) = Thrown"
    and "\<forall>j < length batch. j \<noteq> k \<longrightarrow> handleOrder env (orders w) (batch ! j) \<noteq> Thrown"
  shows "length (fst (save env w batch relay)) = length batch - 1
       \<and> save env w batch relay = save env w (take k batch @ drop (Suc k) batch) relay"
proof -
  let ?h = "handleOrder env (orders w)"
  let ?rest = "take k batch @ drop (Suc k) batch"
  have r: "concat (map resultsOf (map ?h batch)) = concat (map resultsOf (map ?h ?rest))"
    using assms(1,2) by (intro concat_map_drop_thrown) simp_all
  have v: "concat (map orderValuesOf (map ?h batch)) = concat (map orderValuesOf (map ?h ?rest))"
    using assms(1,2) by (intro concat_map_drop_thrown) simp_all
  have d: "concat (map arweaveDataOf (map ?h batch)) = concat (map arweaveDataOf (map ?h ?rest))"
    using assms(1,2) by (intro concat_map_drop_thrown) simp_all
  have same: "save env w batch relay = save env w ?rest relay"
    unfolding save_def Let_def by (simp only: r v d)
  have "\<forall>x \<in> set ?rest. ?h x \<noteq> Thrown"
  proof
    fix x assume "x \<in> set ?rest"
    then consider "x \<in> set (take k batch)" | "x \<in> set (drop (Suc k) batch)" by auto
    then show "?h x \<noteq> Thrown"
    proof cases
      case 1
      then obtain j where "j < length (take k batch)" "take k batch ! j = x"
        by (auto simp: in_set_conv_nth)
      with assms(1,3) show ?thesis by auto
    next
      case 2
      then obtain j where j: "j < length (drop (Suc k) batch)" "drop (Suc k) batch ! j = x"
        by (auto simp: in_set_conv_nth)
      then have "batch ! (Suc k + j) = x" "Suc k + j < length batch" "Suc k + j \<noteq> k"
        by auto
      with assms(3) show ?thesis by blast
    qed
  qed
  then have "length (concat (map resultsOf (map ?h ?rest))) = length ?rest"
    by (rule results_one_each)
  moreover have "length ?rest = length batch - 1" using assms(1) by auto
  ultimately have "length (fst (save env w batch relay)) = length batch - 1"
    by (simp only: save_results r)
  with same show ?thesis by blast
qed

theorem failure_isolated_witness:
  "handleOrder exEnv (orders exWorld) ([exInfo exSell, exInfo exSellZeroPrice, exInfo exSellExpired] ! 1)
     = Thrown
   \<and> map status (fst (save exEnv exWorld
                        [exInfo exSell, exInfo exSellZeroPrice, exInfo exSellExpired] False))
       = [''success'', ''expired'']
   \<and> save exEnv exWorld [exInfo exSell, exInfo exSellZeroPrice, exInfo exSellExpired] False
       = save exEnv exWorld [exInfo exSell, exInfo exSellExpired] False"
proof -
  have w: "orders exWorld = []" by (simp add: exWorld_def)
  have k: "(1::nat) < length [exInfo exSell, exInfo exSellZeroPrice, exInfo exSellExpired]"
    by simp
  have t: "handleOrder exEnv (orders exWorld)
             ([exInfo exSell, exInfo exSellZeroPrice, exInfo exSellExpired] ! 1) = Thrown"
    by (simp add: w ex_handle_zero_price)
  have o: "\<forall>j < length [exInfo exSell, exInfo exSellZeroPrice, exInfo exSellExpired].
             j \<noteq> 1 \<longrightarrow> handleOrder exEnv (orders exWorld)
                ([exInfo exSell, exInfo exSellZeroPrice, exInfo exSellExpired] ! j) \<noteq> Thrown"
  proof (intro allI impI)
    fix j :: nat
    assume "j < length [exInfo exSell, exInfo exSellZeroPrice, exInfo exSellExpired]" "j \<noteq> 1"
    then have "j = 0 \<or> j = 2" by auto
    then show "handleOrder exEnv (orders exWorld)
                ([exInfo exSell, exInfo exSellZeroPrice, exInfo exSellExpired] ! j) \<noteq> Thrown"
      by (auto simp: w ex_handle_sell ex_handle_expired)
  qed
  have s: "map status (fst (save exEnv exWorld
                        [exInfo exSell, exInfo exSellZeroPrice, exInfo exSellExpired] False))
       = [''success'', ''expired'']"
    by (simp add: save_results w ex_handle_sell ex_handle_zero_price ex_handle_expired)
  from failure_isolated [OF k t o, of False] t s show ?thesis by simp
qed

text \<open>
  C9 (new order events). What \<open>save\<close> adds to the effects is nothing when no outcome
  is \<open>success\<close>; otherwise it is the bulk insert of the accepted rows, then one
  enqueueing of one event for each \<open>success\<close> outcome, in their order, and after it
  nothing that enqueues. The event of an outcome carries its identity, the context
  \<open>new-order-\<close> followed by the identity, and the trigger \<open>new-order\<close>; for each
  identity there are as many events as \<open>success\<close> outcomes.
\<close>

theorem new_order_events:
  "\<exists>new. effects (snd (save env w batch relay)) = effects w @ new
     \<and> (let succ = filter (\<lambda>r. status r = ''success'') (fst (save env w batch relay))
        in (succ = [] \<longrightarrow> new = [])
         \<and> (succ \<noteq> []
              \<longrightarrow> (\<exists>rows rest.
                     new = BulkInsert rows # AddToQueue (map newOrderEvent succ) # rest
                     \<and> (\<forall>e \<in> set rest. \<forall>evs. e \<noteq> AddToQueue evs)
                     \<and> map id_col rows = map id_res succ
                     \<and> orders (snd (save env w batch relay))
                         = insertOnConflictDoNothing (orders w) rows))
         \<and> (\<forall>e \<in> set (map newOrderEvent succ).
               context_ev e = ''new-order-'' @ id_ev e \<and> trigger_kind e = ''new-order'')
         \<and> (\<forall>i. length (filter (\<lambda>e. id_ev e = i) (map newOrderEvent succ))
                  = length (filter (\<lambda>r. id_res r = i) succ)))"
proof -
  let ?hs = "map (handleOrder env (orders w)) batch"
  let ?rs = "concat (map resultsOf ?hs)"
  let ?ovs = "concat (map orderValuesOf ?hs)"
  let ?succ = "filter (\<lambda>r. status r = ''success'') ?rs"
  have ids: "map id_res ?succ = map id_col ?ovs" by (rule success_results_of_batch)
  then have empty: "?succ = [] \<longleftrightarrow> ?ovs = []" by (metis map_is_Nil_conv)
  have ev: "\<forall>e \<in> set (map newOrderEvent ?succ).
               context_ev e = ''new-order-'' @ id_ev e \<and> trigger_kind e = ''new-order''"
    by (simp add: newOrderEvent_def)
  have cnt: "\<forall>i. length (filter (\<lambda>e. id_ev e = i) (map newOrderEvent ?succ))
                  = length (filter (\<lambda>r. id_res r = i) ?succ)"
    by (simp add: filter_map comp_def newOrderEvent_def)
  show ?thesis
  proof (cases "?ovs = []")
    case True
    then have "snd (save env w batch relay) = w" by (rule save_nothing_pushed)
    with True empty ev cnt show ?thesis
      by (simp add: save_results Let_def)
  next
    case False
    define rest where "rest = (if relay then [ArweaveRelay (concat (map arweaveDataOf ?hs))] else [])"
    have e: "effects (snd (save env w batch relay))
        = effects w @ BulkInsert ?ovs # AddToQueue (map newOrderEvent ?succ) # rest"
      using False by (simp add: save_def Let_def rest_def)
    have r: "\<forall>e \<in> set rest. \<forall>evs. e \<noteq> AddToQueue evs" by (simp add: rest_def)
    have o: "orders (snd (save env w batch relay)) = insertOnConflictDoNothing (orders w) ?ovs"
      by (rule save_orders)
    from False empty have ne: "?succ \<noteq> []" by simp
    have "\<exists>rows rest'.
            BulkInsert ?ovs # AddToQueue (map newOrderEvent ?succ) # rest
              = BulkInsert rows # AddToQueue (map newOrderEvent ?succ) # rest'
            \<and> (\<forall>e \<in> set rest'. \<forall>evs. e \<noteq> AddToQueue evs)
            \<and> map id_col rows = map id_res ?succ
            \<and> orders (snd (save env w batch relay)) = insertOnConflictDoNothing (orders w) rows"
      using r ids o by auto
    with e ne ev cnt show ?thesis
      unfolding Let_def save_results by blast
  qed
qed

theorem new_order_events_witness:
  "map status (fst (save exEnv exWorld [exInfo exSell, exInfo exSellExpired] False))
     = [''success'', ''expired'']
   \<and> effects (snd (save exEnv exWorld [exInfo exSell, exInfo exSellExpired] False))
     = [BulkInsert [exSellRow],
        AddToQueue [\<lparr>context_ev = ''new-order-0xmaker/7/0xnft721/1'',
                     id_ev = ''0xmaker/7/0xnft721/1'', trigger_kind = ''new-order''\<rparr>]]"
proof -
  have w: "orders exWorld = []" "effects exWorld = []" by (simp_all add: exWorld_def)
  have s: "save exEnv exWorld [exInfo exSell, exInfo exSellExpired] False
     = ([\<lparr>id_res = ''0xmaker/7/0xnft721/1'', status = ''success''\<rparr>,
         \<lparr>id_res = ''0xmaker/7/0xnft721/1'', status = ''expired''\<rparr>],
        \<lparr>orders = [exSellRow],
         effects = [BulkInsert [exSellRow],
                    AddToQueue [\<lparr>context_ev = ''new-order-0xmaker/7/0xnft721/1'',
                                 id_ev = ''0xmaker/7/0xnft721/1'',
                                 trigger_kind = ''new-order''\<rparr>]]\<rparr>)"
    by (simp add: save_def Let_def w ex_handle_sell ex_handle_expired
        insertOnConflictDoNothing_def orderExists_def newOrderEvent_def)
  from new_order_events [of exEnv exWorld "[exInfo exSell, exInfo exSellExpired]" False] s
  show ?thesis by simp
qed

subsection \<open>The sources registry\<close>

lemma get_default:
  "sources s i = None \<Longrightarrow> get s i = getDefaultSource"
  by (simp add: get_def)

lemma getDefaultSource_id: "id_src getDefaultSource = 0 \<and> address_src getDefaultSource = AddressZero"
  by (simp add: getDefaultSource_def)

lemma getByName_default:
  "sourcesByNames s (toLower name) = None \<Longrightarrow> toLower name \<notin> set objectPrototypeKeys
     \<Longrightarrow> getByName s name True = Entity getDefaultSource"
  by (simp add: getByName_def jsIn_def)

lemma getByAddress_default:
  assumes "sourcesByAddress s (toLower address) = None"
    and "toLower address \<notin> set objectPrototypeKeys"
  shows "\<exists>e. getByAddress chainId replace s address c t True = (Some (Entity e), s)
           \<and> id_src e = 0 \<and> address_src e = AddressZero"
  using assms by (simp add: getByAddress_def jsIn_def Let_def getDefaultSource_def)

lemma getByAddress_updates_table:
  assumes "sourcesByAddress s (toLower address) = Some e" and "truthy c" and "truthy t"
  shows "sourcesByAddress (snd (getByAddress chainId replace s address c t returnDefault))
           (toLower address)
         = Some (e\<lparr>metadata_src :=
                     (metadata_src e)\<lparr>url := getTokenUrl chainId replace e (the c) (the t)\<rparr>\<rparr>)"
  using assms by (simp add: getByAddress_def jsIn_def jsGet_def Let_def)

text \<open>
  C10 (default source). The name \<open>constructor\<close> is not the name of any loaded source,
  and \<open>getByName\<close>, asked to return the default, returns the member of that name which
  the table inherits from \<open>Object.prototype\<close>, not the default source; \<open>getByAddress\<close>
  does the same on such a key. (\<open>get\<close>, on numbers, does return the default.)
\<close>

theorem getByName_inherited_member:
  "sourcesByNames exSources (toLower ''constructor'') = None
   \<and> getByName exSources ''constructor'' True = Inherited ''constructor''
   \<and> getByName exSources ''constructor'' True \<noteq> Entity getDefaultSource
   \<and> sourcesByAddress exSources (toLower ''constructor'') = None
   \<and> fst (getByAddress 250 (\<lambda>s p r. s) exSources ''constructor'' None None True)
       = Some (Inherited ''constructor'')
   \<and> get exSources 7 = getDefaultSource"
  by code_simp

end
